theory Spec2Isabelle
  imports Complex_Main
begin

section \<open>Data model\<close>

text \<open>
  The storefront sells one book in several variants. The server actions of the repository
  exist in two modules: the unified actions module (\<open>placeOrder\<close> with discount codes and
  both payment methods, \<open>initiatePhonePePayment\<close>, \<open>checkPhonePeStatus\<close>,
  \<open>changeOrderStatusAction\<close>, \<open>submitReview\<close>) and \<open>src/lib/actions.ts\<close> (a COD-only
  \<open>placeOrder\<close>, \<open>processPrepaidOrder\<close>, \<open>changeOrderStatus\<close>, \<open>submitReview\<close>).
  \<open>placeOrder\<close> and \<open>submitReview\<close> of \<open>src/lib/actions.ts\<close> carry the suffix \<open>_actions\<close>;
  \<open>processPrepaidOrder\<close> is the one of \<open>src/lib/actions.ts\<close> (the function of that name in
  the unified module only logs a simulated payment and is not modelled).

  JavaScript numbers are modelled as exact real numbers: the rounding error of IEEE-754
  double arithmetic is outside this model. JavaScript strings are modelled as \<open>string\<close>
  and their \<open>length\<close> as the list length. \<open>undefined\<close> is \<open>None\<close>.
\<close>

datatype BookVariant = Paperback | Hardcover | Ebook

datatype OrderStatus = New | Dispatched | Delivered | Cancelled

datatype PaymentMethod = Cod | Prepaid

text \<open>
  \<open>Omit<Order, 'id' | 'status' | 'createdAt' | 'hasReview'>\<close>. The unified module fills
  every field; \<open>src/lib/actions.ts\<close> passes the optional form fields as they are and sets
  no discount field.
\<close>

record OrderData =
  userId :: string
  name :: string
  phone :: "string option"
  email :: string
  address :: "string option"
  street :: "string option"
  city :: "string option"
  country :: "string option"
  state :: "string option"
  pinCode :: "string option"
  paymentMethod :: PaymentMethod
  variant :: BookVariant
  price :: real
  originalPrice :: "real option"
  discountCode :: "string option"
  discountAmount :: "real option"

record Order = OrderData +
  order_id :: string
  status :: OrderStatus
  createdAt :: string
  hasReview :: bool

record Discount =
  code :: string
  percent :: real
  usageCount :: int

record Prices =
  paperback :: real
  hardcover :: real

text \<open>\<open>z.infer<typeof ReviewSchema>\<close>, and the stored review \<open>{...validatedData, userName}\<close>.\<close>

record ReviewData =
  review_orderId :: string
  review_userId :: string
  rating :: real
  reviewText :: "string option"

record Review = ReviewData +
  userName :: string

text \<open>\<open>OrderPayload = z.infer<typeof OrderFormSchema>\<close> of the unified module.\<close>

record OrderPayload =
  payload_variant :: BookVariant
  payload_name :: string
  payload_email :: string
  payload_phone :: string
  payload_address :: string
  payload_street :: "string option"
  payload_city :: string
  payload_country :: string
  payload_state :: string
  payload_pinCode :: string
  payload_userId :: string
  payload_discountCode :: "string option"
  payload_paymentMethod :: PaymentMethod

text \<open>
  \<open>z.infer<typeof OrderSchema>\<close> of \<open>src/lib/actions.ts\<close>, and its extension
  \<open>CodOrderSchema = OrderSchema.extend({paymentMethod: z.literal('cod')})\<close>.
\<close>

record OrderSchema =
  data_variant :: BookVariant
  data_name :: string
  data_email :: string
  data_phone :: "string option"
  data_address :: "string option"
  data_street :: "string option"
  data_city :: "string option"
  data_country :: "string option"
  data_state :: "string option"
  data_pinCode :: "string option"
  data_userId :: string

record CodOrderSchema = OrderSchema +
  data_paymentMethod :: PaymentMethod

subsection \<open>The payment provider's wire format\<close>

datatype json = JString string | JNumber real | JUndefined | JObject "(string \<times> json) list"

text \<open>The arguments of \<open>fetch\<close>: the URL and the \<open>method\<close>, \<open>headers\<close> and \<open>body\<close> options.\<close>

record Request =
  url :: string
  http_method :: string
  headers :: "(string \<times> string) list"
  body :: "string option"

text \<open>
  What the actions read of the provider's JSON answer: \<open>data.success\<close>, \<open>data.message\<close>
  and \<open>data.data.instrumentResponse.redirectInfo.url\<close>. \<open>Path_undefined m\<close>: one of
  \<open>data.data\<close>, \<open>instrumentResponse\<close>, \<open>redirectInfo\<close> is undefined, so that the plain
  property access raises a TypeError with message \<open>m\<close> and the optional chain \<open>?.\<close> gives
  \<open>undefined\<close>.
\<close>

datatype redirect_path = Path_undefined string | Url "string option"

record PhonePeData =
  resp_success :: bool
  resp_message :: "string option"
  resp_redirect :: redirect_path

text \<open>\<open>await fetch(...)\<close> followed by \<open>await response.json()\<close>: either rejects with an
  error message or gives the parsed answer.\<close>

datatype FetchOutcome = Rejects string | Responds PhonePeData

subsection \<open>Environment and persistent state\<close>

text \<open>The operations of the stores, each of which may reject (for example when the document
  database cannot be reached).\<close>

datatype store_op =
  FetchLocationAndPrice | GetDiscount | IncrementDiscountUsage | AddOrder | GetOrderById
  | UpdateOrderStatus | AddPendingOrder | DeletePendingOrder | DecreaseStock | AddReview

text \<open>
  Everything an action reads from outside the persistent state: the process environment
  variables, the clock and the id generators (already rendered as text), the outcome of the
  HTTP call, the library functions (zod's email check, \<open>JSON.stringify\<close>, base64, SHA-256 as
  a hex digest, \<open>parseInt\<close> followed by the rendering of the number in a template string),
  and for each store operation whether it rejects, and with which error message.
\<close>

record env =
  isEmail :: "string \<Rightarrow> bool"
  prices :: Prices
  throws :: "store_op \<Rightarrow> string option"
  new_order_id :: string
  Date_now :: string
  uuidv4 :: string
  currentUser_displayName :: "string option"
  NEXT_PUBLIC_IS_PRODUCTION :: "string option"
  NEXT_PUBLIC_HOST_URL :: "string option"
  PHONEPE_MERCHANT_ID :: "string option"
  PHONEPE_SALT_KEY :: "string option"
  PHONEPE_SALT_INDEX :: "string option"
  fetch :: "Request \<Rightarrow> FetchOutcome"
  JSON_stringify :: "json \<Rightarrow> string"
  base64 :: "string \<Rightarrow> string"
  sha256_hex :: "string \<Rightarrow> string"
  parseInt :: "string \<Rightarrow> string"

text \<open>
  The persistent state: orders keyed by generated id under the customer identifier, pending
  orders keyed by the gateway transaction id, the stock and discount ledgers, the reviews;
  and the observable traces of an action: log entries, invalidated cache paths, HTTP
  requests sent.
\<close>

record world =
  orders :: "string \<times> string \<rightharpoonup> Order"
  pendingOrders :: "string \<rightharpoonup> OrderData"
  stock :: "BookVariant \<Rightarrow> int"
  discounts :: "string \<rightharpoonup> Discount"
  reviews :: "Review list"
  logs :: "(string \<times> string) list"
  revalidated :: "string list"
  sent :: "Request list"

text \<open>
  An asynchronous computation: it either resolves (\<open>Inr\<close>) or rejects with an \<open>Error\<close>
  carrying a message (\<open>Inl\<close>); the state changes made before a rejection stay.
\<close>

type_synonym 'a action = "world \<Rightarrow> (string + 'a) \<times> world"

definition resolve :: "'a \<Rightarrow> 'a action" where
  "resolve x s = (Inr x, s)"

definition throw :: "string \<Rightarrow> 'a action" where
  "throw m s = (Inl m, s)"

definition and_then :: "'a action \<Rightarrow> ('a \<Rightarrow> 'b action) \<Rightarrow> 'b action" where
  "and_then m f s = (case m s of (Inl err, s') \<Rightarrow> (Inl err, s') | (Inr x, s') \<Rightarrow> f x s')"

text \<open>JavaScript truthiness of an optional string, and \<open>x || d\<close>.\<close>

definition truthy :: "string option \<Rightarrow> bool" where
  "truthy x = (case x of None \<Rightarrow> False | Some v \<Rightarrow> v \<noteq> [])"

definition or_else :: "string option \<Rightarrow> string \<Rightarrow> string" where
  "or_else x d = (case x of None \<Rightarrow> d | Some v \<Rightarrow> if v = [] then d else v)"

text \<open>\<open>Math.round\<close>: the nearest integer, a half rounded up.\<close>

definition Math_round :: "real \<Rightarrow> int" where
  "Math_round x = \<lfloor>x + 1 / 2\<rfloor>"

section \<open>The stores\<close>

text \<open>
  The modules \<open>log-store\<close>, \<open>fetch-location-price\<close>, \<open>discount-store\<close>, \<open>stock-store\<close>,
  \<open>order-store\<close> and \<open>review-store\<close> are not among the sources. Their operations are
  modelled from the spec; each may reject, as the environment says, before it reads or
  writes anything.
\<close>

text \<open>Modelled from the spec: the logging sink \<open>addLog(level, message, context)\<close> of
  \<open>log-store\<close>; it never blocks or fails the calling operation. The context object is
  not recorded.\<close>

definition addLog :: "string \<Rightarrow> string \<Rightarrow> unit action" where
  "addLog level msg s = (Inr (), s\<lparr>logs := logs s @ [(level, msg)]\<rparr>)"

text \<open>\<open>revalidatePath\<close> of the framework: the cached views of a path are invalidated.\<close>

definition revalidatePath :: "string \<Rightarrow> unit action" where
  "revalidatePath p s = (Inr (), s\<lparr>revalidated := revalidated s @ [p]\<rparr>)"

text \<open>Modelled from the spec: the Pricing Resolver \<open>fetchLocationAndPrice\<close> of
  \<open>fetch-location-price\<close>; it returns the current price of each physical variant.\<close>

definition fetchLocationAndPrice :: "env \<Rightarrow> Prices action" where
  "fetchLocationAndPrice e =
     (case throws e FetchLocationAndPrice of Some m \<Rightarrow> throw m | None \<Rightarrow> resolve (prices e))"

text \<open>\<open>prices[variant as Exclude<BookVariant, 'ebook'>]\<close>. The schemas admit only the two
  physical variants, so the third case is never reached by a validated order.\<close>

definition price_of :: "Prices \<Rightarrow> BookVariant \<Rightarrow> real" where
  "price_of p v = (case v of Paperback \<Rightarrow> paperback p | Hardcover \<Rightarrow> hardcover p | Ebook \<Rightarrow> 0)"

text \<open>Modelled from the spec: \<open>getDiscount\<close> of \<open>discount-store\<close> (the Discount Ledger's
  \<open>getByCode\<close>); it looks a code up and gives the entry or null.\<close>

definition getDiscount :: "env \<Rightarrow> string \<Rightarrow> Discount option action" where
  "getDiscount e c =
     (case throws e GetDiscount of Some m \<Rightarrow> throw m | None \<Rightarrow> (\<lambda>s. (Inr (discounts s c), s)))"

text \<open>Modelled from the spec: \<open>incrementDiscountUsage\<close> of \<open>discount-store\<close> (the Discount
  Ledger's \<open>incrementUsage\<close>); it adds one to the usage counter of the code, and is a
  no-op, not a failure, if the code is absent.\<close>

definition incrementDiscountUsage :: "env \<Rightarrow> string \<Rightarrow> unit action" where
  "incrementDiscountUsage e c =
     (case throws e IncrementDiscountUsage of
        Some m \<Rightarrow> throw m
      | None \<Rightarrow> (\<lambda>s. case discounts s c of
                 None \<Rightarrow> (Inr (), s)
               | Some d \<Rightarrow>
                   (Inr (), s\<lparr>discounts := (discounts s)(c \<mapsto> d\<lparr>usageCount := usageCount d + 1\<rparr>)\<rparr>)))"

text \<open>Modelled from the spec: \<open>decreaseStock(variant, n)\<close> of \<open>stock-store\<close> (the Stock
  Ledger's \<open>decrement\<close>); it takes \<open>n\<close> off the quantity of a physical variant, and the
  e-book has no record. What it does when the stock is insufficient is left open by the
  spec: here it either rejects (as any store operation may) or subtracts.\<close>

definition decreaseStock :: "env \<Rightarrow> BookVariant \<Rightarrow> int \<Rightarrow> unit action" where
  "decreaseStock e v n =
     (case throws e DecreaseStock of
        Some m \<Rightarrow> throw m
      | None \<Rightarrow> (\<lambda>s. if v = Ebook then (Inr (), s)
                     else (Inr (), s\<lparr>stock := (stock s)(v := stock s v - n)\<rparr>)))"

text \<open>Modelled from the spec: \<open>addOrder\<close> of \<open>order-store\<close> (the Order Store's \<open>create\<close>);
  it persists the order under a generated id, nested under the customer identifier, with
  status new, hasReview false and createdAt now, and returns it. (\<open>src/lib/actions.ts\<close>
  passes the customer identifier as a separate first argument as well.)\<close>

definition addOrder :: "env \<Rightarrow> OrderData \<Rightarrow> Order action" where
  "addOrder e d =
     (case throws e AddOrder of
        Some m \<Rightarrow> throw m
      | None \<Rightarrow> (\<lambda>s.
          let newOrder = OrderData.extend d
                (Order.fields (new_order_id e) New (Date_now e) False)
          in (Inr newOrder, s\<lparr>orders := (orders s)((userId d, new_order_id e) \<mapsto> newOrder)\<rparr>)))"

text \<open>Modelled from the spec: \<open>getOrderById\<close> of \<open>order-store\<close> (the Order Store's
  \<open>getByIdForCustomer\<close>); it gives the order of a customer or null.\<close>

definition getOrderById :: "env \<Rightarrow> string \<Rightarrow> string \<Rightarrow> Order option action" where
  "getOrderById e uid oid =
     (case throws e GetOrderById of
        Some m \<Rightarrow> throw m
      | None \<Rightarrow> (\<lambda>s. (Inr (orders s (uid, oid)), s)))"

text \<open>Modelled from the spec: \<open>updateOrderStatus\<close> of \<open>order-store\<close> (the Order Store's
  \<open>updateStatus(custId, orderId, status, hasReview?)\<close>); it sets the status, and
  hasReview when given, whatever the status was, and fails if the order cannot be located
  for the customer. The spec does not give the text of that error.\<close>

definition updateOrderStatus ::
  "env \<Rightarrow> string \<Rightarrow> string \<Rightarrow> OrderStatus \<Rightarrow> bool option \<Rightarrow> unit action" where
  "updateOrderStatus e uid oid st hr =
     (case throws e UpdateOrderStatus of
        Some m \<Rightarrow> throw m
      | None \<Rightarrow> (\<lambda>s. case orders s (uid, oid) of
                 None \<Rightarrow> (Inl ''Order not found.'', s)
               | Some ord \<Rightarrow>
                   (let ord' = (case hr of None \<Rightarrow> ord\<lparr>status := st\<rparr>
                                | Some h \<Rightarrow> ord\<lparr>status := st, hasReview := h\<rparr>)
                    in (Inr (), s\<lparr>orders := (orders s)((uid, oid) \<mapsto> ord')\<rparr>))))"

text \<open>Modelled from the spec: \<open>addPendingOrder\<close> of \<open>order-store\<close> (the Order Store's
  \<open>createPending(txnId, data)\<close>); it keeps the order data under the gateway transaction
  id.\<close>

definition addPendingOrder :: "env \<Rightarrow> string \<Rightarrow> OrderData \<Rightarrow> unit action" where
  "addPendingOrder e txn d =
     (case throws e AddPendingOrder of
        Some m \<Rightarrow> throw m
      | None \<Rightarrow> (\<lambda>s. (Inr (), s\<lparr>pendingOrders := (pendingOrders s)(txn \<mapsto> d)\<rparr>)))"

text \<open>Modelled from the spec: \<open>deletePendingOrder\<close> of \<open>order-store\<close> (the Order Store's
  \<open>deletePending(txnId)\<close>); it deletes the record kept under the transaction id.\<close>

definition deletePendingOrder :: "env \<Rightarrow> string \<Rightarrow> unit action" where
  "deletePendingOrder e txn =
     (case throws e DeletePendingOrder of
        Some m \<Rightarrow> throw m
      | None \<Rightarrow> (\<lambda>s. (Inr (), s\<lparr>pendingOrders := (pendingOrders s)(txn := None)\<rparr>)))"

text \<open>Modelled from the spec: \<open>addReview\<close> of \<open>review-store\<close>; it persists a review.\<close>

definition addReview :: "env \<Rightarrow> Review \<Rightarrow> unit action" where
  "addReview e r =
     (case throws e AddReview of
        Some m \<Rightarrow> throw m
      | None \<Rightarrow> (\<lambda>s. (Inr (), s\<lparr>reviews := reviews s @ [r]\<rparr>)))"

section \<open>The unified actions module\<close>

text \<open>The result objects of the actions: \<open>{success, message, orderId?, paymentData?}\<close> and
  \<open>{success, message, redirectUrl?}\<close>; \<open>paymentData\<close> holds its \<open>redirectUrl\<close>.\<close>

record Result =
  success :: bool
  message :: string
  orderId :: "string option"
  paymentData :: "string option"
  redirectUrl :: "string option"

text \<open>What \<open>initiatePhonePePayment\<close> returns: \<open>{success: true, redirectUrl}\<close> or
  \<open>{success: false, message}\<close>.\<close>

record PaymentResponse =
  pr_success :: bool
  pr_redirectUrl :: "string option"
  pr_message :: "string option"

text \<open>What \<open>checkPhonePeStatus\<close> returns: the provider's answer as it is, or
  \<open>{success: false, message}\<close>.\<close>

datatype StatusResult = Raw PhonePeData | Failure string

text \<open>\<open>OrderFormSchema.safeParse(payload).success\<close>.\<close>

definition OrderFormSchema :: "env \<Rightarrow> OrderPayload \<Rightarrow> bool" where
  "OrderFormSchema e payload \<longleftrightarrow>
     (payload_variant payload = Paperback \<or> payload_variant payload = Hardcover)
     \<and> 2 \<le> length (payload_name payload)
     \<and> isEmail e (payload_email payload)
     \<and> 10 \<le> length (payload_phone payload)
     \<and> 5 \<le> length (payload_address payload)
     \<and> 2 \<le> length (payload_city payload)
     \<and> 2 \<le> length (payload_country payload)
     \<and> 2 \<le> length (payload_state payload)
     \<and> 3 \<le> length (payload_pinCode payload)
     \<and> 1 \<le> length (payload_userId payload)"

text \<open>The value of an environment variable that has been checked to be set.\<close>

definition str :: "string option \<Rightarrow> string" where
  "str x = (case x of None \<Rightarrow> [] | Some v \<Rightarrow> v)"

text \<open>\<open>await fetch(url, {method, headers, body})\<close> and \<open>await response.json()\<close>.\<close>

definition do_fetch :: "env \<Rightarrow> Request \<Rightarrow> FetchOutcome action" where
  "do_fetch e req s = (Inr (fetch e req), s\<lparr>sent := sent s @ [req]\<rparr>)"

definition apiUrl :: "env \<Rightarrow> string" where
  "apiUrl e =
     (if NEXT_PUBLIC_IS_PRODUCTION e = Some ''true''
      then ''https://api.phonepe.com/apis/hermes''
      else ''https://api-preprod.phonepe.com/apis/pg-sandbox'')"

definition json_of_string_option :: "string option \<Rightarrow> json" where
  "json_of_string_option x = (case x of None \<Rightarrow> JUndefined | Some v \<Rightarrow> JString v)"

text \<open>The \<open>payload\<close> object of \<open>initiatePhonePePayment\<close>.\<close>

definition initiatePhonePePayment_payload :: "env \<Rightarrow> Order \<Rightarrow> json" where
  "initiatePhonePePayment_payload e ord =
     (let host = str (NEXT_PUBLIC_HOST_URL e);
          merchantId = str (PHONEPE_MERCHANT_ID e);
          amount = price ord * 100;
          merchantTransactionId = ''MUID-'' @ order_id ord @ ''-'' @ Date_now e;
          merchantUserId =
            (if userId ord \<noteq> [] then ''CUID-'' @ take 25 (userId ord)
             else ''CUID-GUEST-'' @ Date_now e)
      in JObject
          [(''merchantId'', JString merchantId),
           (''merchantTransactionId'', JString merchantTransactionId),
           (''merchantUserId'', JString merchantUserId),
           (''amount'', JNumber amount),
           (''redirectUrl'', JString (host @ ''/api/payment/callback'')),
           (''redirectMode'', JString ''POST''),
           (''callbackUrl'', JString (host @ ''/api/payment/callback'')),
           (''mobileNumber'', json_of_string_option (phone ord)),
           (''paymentInstrument'', JObject [(''type'', JString ''PAY_PAGE'')])])"

text \<open>The request that \<open>initiatePhonePePayment\<close> passes to \<open>fetch\<close>.\<close>

definition initiatePhonePePayment_request :: "env \<Rightarrow> Order \<Rightarrow> Request" where
  "initiatePhonePePayment_request e ord =
     (let saltKey = str (PHONEPE_SALT_KEY e);
          saltIndex = str (PHONEPE_SALT_INDEX e);
          base64Payload = base64 e (JSON_stringify e (initiatePhonePePayment_payload e ord));
          apiEndpoint = ''/pg/v1/pay'';
          checksumString = base64Payload @ apiEndpoint @ saltKey;
          sha256 = sha256_hex e checksumString;
          xVerify = sha256 @ ''###'' @ saltIndex
      in \<lparr>url = apiUrl e @ apiEndpoint,
          http_method = ''POST'',
          headers = [(''Content-Type'', ''application/json''), (''X-VERIFY'', xVerify)],
          body = Some (JSON_stringify e (JObject [(''request'', JString base64Payload)]))\<rparr>)"

definition payment_failed :: "string option \<Rightarrow> PaymentResponse" where
  "payment_failed m = \<lparr>pr_success = False, pr_redirectUrl = None, pr_message = m\<rparr>"

text \<open>The \<open>catch\<close> clause around the HTTP call of \<open>initiatePhonePePayment\<close>.\<close>

definition initiatePhonePePayment_catch :: "string \<Rightarrow> PaymentResponse action" where
  "initiatePhonePePayment_catch m =
     and_then (addLog ''error'' ''PhonePe API call failed'')
       (\<lambda>_. resolve (payment_failed (Some m)))"

definition initiatePhonePePayment :: "env \<Rightarrow> Order \<Rightarrow> PaymentResponse action" where
  "initiatePhonePePayment e ord =
     (if \<not> truthy (PHONEPE_MERCHANT_ID e) \<or> \<not> truthy (PHONEPE_SALT_KEY e)
         \<or> \<not> truthy (PHONEPE_SALT_INDEX e) \<or> \<not> truthy (NEXT_PUBLIC_HOST_URL e)
      then throw ''PhonePe environment variables are not configured.''
      else
        and_then (addLog ''info'' ''Initiating PhonePe payment with payload'') (\<lambda>_.
        and_then (do_fetch e (initiatePhonePePayment_request e ord)) (\<lambda>outcome.
          case outcome of
            Rejects m \<Rightarrow> initiatePhonePePayment_catch m
          | Responds data \<Rightarrow>
              and_then (addLog ''info'' ''PhonePe API response received'') (\<lambda>_.
                if resp_success data then
                  (case resp_redirect data of
                     Path_undefined m \<Rightarrow> initiatePhonePePayment_catch m
                   | Url u \<Rightarrow>
                       if truthy u
                       then resolve \<lparr>pr_success = True, pr_redirectUrl = u, pr_message = None\<rparr>
                       else resolve (payment_failed (Some (or_else (resp_message data)
                              ''Failed to get redirect URL from PhonePe.''))))
                else resolve (payment_failed (Some (or_else (resp_message data)
                       ''Failed to get redirect URL from PhonePe.'')))))))"

text \<open>The request that \<open>checkPhonePeStatus\<close> passes to \<open>fetch\<close>.\<close>

definition checkPhonePeStatus_request :: "env \<Rightarrow> string \<Rightarrow> Request" where
  "checkPhonePeStatus_request e merchantTransactionId =
     (let merchantId = str (PHONEPE_MERCHANT_ID e);
          saltKey = str (PHONEPE_SALT_KEY e);
          saltIndex = str (PHONEPE_SALT_INDEX e);
          apiEndpoint = ''/pg/v1/status/'' @ merchantId @ ''/'' @ merchantTransactionId;
          checksumString = apiEndpoint @ saltKey;
          sha256 = sha256_hex e checksumString;
          xVerify = sha256 @ ''###'' @ saltIndex
      in \<lparr>url = apiUrl e @ apiEndpoint,
          http_method = ''GET'',
          headers = [(''Content-Type'', ''application/json''), (''X-MERCHANT-ID'', merchantId),
                     (''X-VERIFY'', xVerify)],
          body = None\<rparr>)"

definition checkPhonePeStatus :: "env \<Rightarrow> string \<Rightarrow> StatusResult action" where
  "checkPhonePeStatus e merchantTransactionId =
     (if \<not> truthy (PHONEPE_MERCHANT_ID e) \<or> \<not> truthy (PHONEPE_SALT_KEY e)
         \<or> \<not> truthy (PHONEPE_SALT_INDEX e)
      then throw ''PhonePe environment variables are not configured.''
      else
        and_then (do_fetch e (checkPhonePeStatus_request e merchantTransactionId)) (\<lambda>outcome.
          case outcome of
            Responds data \<Rightarrow> resolve (Raw data)
          | Rejects m \<Rightarrow>
              and_then (addLog ''error'' ''checkPhonePeStatus failed'')
                (\<lambda>_. resolve (Failure m))))"

text \<open>The discount step of \<open>placeOrder\<close>: the pair \<open>(finalPrice, discountAmount)\<close>.\<close>

definition placeOrder_discount :: "env \<Rightarrow> string option \<Rightarrow> real \<Rightarrow> (real \<times> real) action" where
  "placeOrder_discount e discountCode' originalPrice' =
     (if truthy discountCode' then
        and_then (getDiscount e (str discountCode')) (\<lambda>discount.
          case discount of
            Some d \<Rightarrow>
              (let discountAmount' = real_of_int (Math_round (originalPrice' * (percent d / 100)))
               in resolve (originalPrice' - discountAmount', discountAmount'))
          | None \<Rightarrow> resolve (originalPrice', 0))
      else resolve (originalPrice', 0))"

definition newOrderData :: "OrderPayload \<Rightarrow> real \<Rightarrow> real \<Rightarrow> real \<Rightarrow> OrderData" where
  "newOrderData payload finalPrice originalPrice' discountAmount' =
     \<lparr>userId = payload_userId payload,
      name = payload_name payload,
      phone = Some (payload_phone payload),
      email = payload_email payload,
      address = Some (payload_address payload),
      street = Some (or_else (payload_street payload) []),
      city = Some (payload_city payload),
      country = Some (payload_country payload),
      state = Some (payload_state payload),
      pinCode = Some (payload_pinCode payload),
      paymentMethod = payload_paymentMethod payload,
      variant = payload_variant payload,
      price = finalPrice,
      originalPrice = Some originalPrice',
      discountCode = Some (or_else (payload_discountCode payload) []),
      discountAmount = Some discountAmount'\<rparr>"

definition result :: "bool \<Rightarrow> string \<Rightarrow> Result" where
  "result ok msg =
     \<lparr>success = ok, message = msg, orderId = None, paymentData = None, redirectUrl = None\<rparr>"

text \<open>The \<open>cod\<close> branch and the prepaid branch of \<open>placeOrder\<close>.\<close>

definition placeOrder_cod :: "env \<Rightarrow> OrderPayload \<Rightarrow> Order \<Rightarrow> Result action" where
  "placeOrder_cod e payload newOrder =
     and_then (decreaseStock e (payload_variant payload) 1) (\<lambda>_.
     and_then (if truthy (payload_discountCode payload)
               then incrementDiscountUsage e (str (payload_discountCode payload))
               else resolve ()) (\<lambda>_.
     and_then (revalidatePath ''/admin'') (\<lambda>_.
     and_then (revalidatePath ''/orders'') (\<lambda>_.
     resolve ((result True ''Order created successfully!'')
                \<lparr>orderId := Some (order_id newOrder)\<rparr>)))))"

definition placeOrder_prepaid :: "env \<Rightarrow> Order \<Rightarrow> Result action" where
  "placeOrder_prepaid e newOrder =
     and_then (initiatePhonePePayment e newOrder) (\<lambda>paymentResponse.
       if pr_success paymentResponse \<and> truthy (pr_redirectUrl paymentResponse)
       then resolve ((result True ''Redirecting to payment gateway.'')
                       \<lparr>paymentData := pr_redirectUrl paymentResponse\<rparr>)
       else
         and_then (addLog ''error'' ''PhonePe payment initiation failed.'') (\<lambda>_.
         resolve (result False
           (or_else (pr_message paymentResponse) ''Could not initiate payment.''))))"

text \<open>The \<open>try\<close> block of \<open>placeOrder\<close>.\<close>

definition placeOrder_try :: "env \<Rightarrow> OrderPayload \<Rightarrow> Result action" where
  "placeOrder_try e payload =
     and_then (fetchLocationAndPrice e) (\<lambda>prices'.
     let originalPrice' = price_of prices' (payload_variant payload) in
     and_then (placeOrder_discount e (payload_discountCode payload) originalPrice')
       (\<lambda>(finalPrice, discountAmount').
     and_then (addLog ''info'' ''Attempting to add order to database with clean data...'') (\<lambda>_.
     and_then (addOrder e (newOrderData payload finalPrice originalPrice' discountAmount'))
       (\<lambda>newOrder.
     and_then (addLog ''info'' ''Order successfully created in database.'') (\<lambda>_.
     if payload_paymentMethod payload = Cod
     then placeOrder_cod e payload newOrder
     else placeOrder_prepaid e newOrder)))))"

definition placeOrder :: "env \<Rightarrow> OrderPayload \<Rightarrow> world \<Rightarrow> Result \<times> world" where
  "placeOrder e payload s0 =
     (let s1 = snd (addLog ''info'' ''placeOrder action initiated.'' s0) in
      if \<not> OrderFormSchema e payload then
        (result False ''Invalid data provided. Please check the form.'',
         snd (addLog ''error'' ''Order validation failed.'' s1))
      else
        (case placeOrder_try e payload s1 of
           (Inr r, s2) \<Rightarrow> (r, s2)
         | (Inl err, s2) \<Rightarrow>
             (let errorMessage = (if err = [] then ''An unknown error occurred.'' else err)
              in (result False
                    (''Could not create a new order in the database. Reason: '' @ errorMessage),
                  snd (addLog ''error'' ''placeOrder action failed catastrophically.'' s2)))))"

definition changeOrderStatusAction ::
  "env \<Rightarrow> string \<Rightarrow> string \<Rightarrow> OrderStatus \<Rightarrow> unit action" where
  "changeOrderStatusAction e userId' orderId' status' =
     updateOrderStatus e userId' orderId' status' None"

text \<open>\<open>ReviewSchema.parse(data)\<close> succeeds. (On failure it raises a ZodError; the text of
  its message is the library's.)\<close>

definition ReviewSchema :: "ReviewData \<Rightarrow> bool" where
  "ReviewSchema d \<longleftrightarrow> 1 \<le> rating d \<and> rating d \<le> 5"

definition ZodError_message :: string where
  "ZodError_message = ''Invalid input''"

definition submitReview_try :: "env \<Rightarrow> ReviewData \<Rightarrow> Result action" where
  "submitReview_try e d =
     (if \<not> ReviewSchema d then throw ZodError_message
      else
        and_then (getOrderById e (review_userId d) (review_orderId d)) (\<lambda>ord.
          case ord of
            None \<Rightarrow> throw ''Order not found.''
          | Some ord' \<Rightarrow>
              and_then (addReview e (ReviewData.extend d (Review.fields (name ord')))) (\<lambda>_.
              and_then (updateOrderStatus e (review_userId d) (review_orderId d) Delivered
                          (Some True)) (\<lambda>_.
              and_then (revalidatePath ''/'') (\<lambda>_.
              and_then (revalidatePath ''/orders'') (\<lambda>_.
              resolve (result True ''Review submitted successfully.'')))))))"

definition submitReview :: "env \<Rightarrow> ReviewData \<Rightarrow> world \<Rightarrow> Result \<times> world" where
  "submitReview e d s =
     (case submitReview_try e d s of
        (Inr r, s') \<Rightarrow> (r, s')
      | (Inl err, s') \<Rightarrow>
          (result False (if err = [] then ''Failed to submit review.'' else err),
           snd (addLog ''error'' ''submitReview failed'' s')))"

section \<open>The module \<open>src/lib/actions.ts\<close>\<close>

definition OrderSchema_safeParse :: "env \<Rightarrow> 'a OrderSchema_scheme \<Rightarrow> bool" where
  "OrderSchema_safeParse e d \<longleftrightarrow>
     (data_variant d = Paperback \<or> data_variant d = Hardcover)
     \<and> 2 \<le> length (data_name d)
     \<and> isEmail e (data_email d)
     \<and> 1 \<le> length (data_userId d)"

definition CodOrderSchema_safeParse :: "env \<Rightarrow> CodOrderSchema \<Rightarrow> bool" where
  "CodOrderSchema_safeParse e d \<longleftrightarrow> OrderSchema_safeParse e d \<and> data_paymentMethod d = Cod"

text \<open>\<open>{...orderDetails, variant, price, paymentMethod, userId: userId}\<close>.\<close>

definition orderDetails :: "'a OrderSchema_scheme \<Rightarrow> real \<Rightarrow> PaymentMethod \<Rightarrow> OrderData" where
  "orderDetails d price' pm =
     \<lparr>userId = data_userId d,
      name = data_name d,
      phone = data_phone d,
      email = data_email d,
      address = data_address d,
      street = data_street d,
      city = data_city d,
      country = data_country d,
      state = data_state d,
      pinCode = data_pinCode d,
      paymentMethod = pm,
      variant = data_variant d,
      price = price',
      originalPrice = None,
      discountCode = None,
      discountAmount = None\<rparr>"

text \<open>The \<open>try\<close> block of the COD-only \<open>placeOrder\<close>.\<close>

definition placeOrder_actions_try :: "env \<Rightarrow> CodOrderSchema \<Rightarrow> Result action" where
  "placeOrder_actions_try e d =
     and_then (fetchLocationAndPrice e) (\<lambda>prices'.
     let price' = price_of prices' (data_variant d) in
     and_then (decreaseStock e (data_variant d) 1) (\<lambda>_.
     and_then (addOrder e (orderDetails d price' Cod)) (\<lambda>newOrder.
     and_then (revalidatePath ''/admin'') (\<lambda>_.
     and_then (revalidatePath ''/orders'') (\<lambda>_.
     resolve ((result True ''Order created successfully!'')
                \<lparr>orderId := Some (order_id newOrder)\<rparr>))))))"

definition placeOrder_actions :: "env \<Rightarrow> CodOrderSchema \<Rightarrow> world \<Rightarrow> Result \<times> world" where
  "placeOrder_actions e d s =
     (if \<not> CodOrderSchema_safeParse e d then
        (result False ''Invalid data provided. Please check the form.'', s)
      else
        (case placeOrder_actions_try e d s of
           (Inr r, s') \<Rightarrow> (r, s')
         | (Inl err, s') \<Rightarrow>
             (result False
                (if err = []
                 then ''An error occurred while placing your order. Please try again.''
                 else err),
              s')))"

text \<open>The module constants read from the process environment, with their fallbacks.\<close>

definition MERCHANT_ID :: "env \<Rightarrow> string" where
  "MERCHANT_ID e = or_else (PHONEPE_MERCHANT_ID e) []"

definition SALT_KEY :: "env \<Rightarrow> string" where
  "SALT_KEY e = or_else (PHONEPE_SALT_KEY e) []"

text \<open>\<open>SALT_INDEX = parseInt(process.env.PHONEPE_SALT_INDEX || '1')\<close>, as the template string
  \<open>###${SALT_INDEX}\<close> renders it.\<close>

definition SALT_INDEX :: "env \<Rightarrow> string" where
  "SALT_INDEX e = parseInt e (or_else (PHONEPE_SALT_INDEX e) ''1'')"

definition HOST_URL :: "env \<Rightarrow> string" where
  "HOST_URL e = or_else (NEXT_PUBLIC_HOST_URL e) ''http://localhost:9002''"

definition PHONEPE_API_URL :: string where
  "PHONEPE_API_URL = ''https://api-preprod.phonepe.com/apis/pg-sandbox''"

definition merchantTransactionId :: "env \<Rightarrow> string" where
  "merchantTransactionId e = take 35 (''M'' @ Date_now e @ uuidv4 e)"

text \<open>The \<open>payload\<close> object of \<open>processPrepaidOrder\<close> and the request it passes to
  \<open>fetch\<close>.\<close>

definition processPrepaidOrder_payload :: "env \<Rightarrow> OrderSchema \<Rightarrow> real \<Rightarrow> json" where
  "processPrepaidOrder_payload e d price' =
     (let amount = price' * 100
      in JObject
          [(''merchantId'', JString (MERCHANT_ID e)),
           (''merchantTransactionId'', JString (merchantTransactionId e)),
           (''merchantUserId'', JString (data_userId d)),
           (''amount'', JNumber amount),
           (''redirectUrl'', JString (HOST_URL e @ ''/orders'')),
           (''redirectMode'', JString ''POST''),
           (''callbackUrl'', JString (HOST_URL e @ ''/api/payment/callback'')),
           (''mobileNumber'', json_of_string_option (data_phone d)),
           (''paymentInstrument'', JObject [(''type'', JString ''PAY_PAGE'')])])"

definition processPrepaidOrder_request :: "env \<Rightarrow> OrderSchema \<Rightarrow> real \<Rightarrow> Request" where
  "processPrepaidOrder_request e d price' =
     (let base64Payload = base64 e (JSON_stringify e (processPrepaidOrder_payload e d price'));
          apiEndpoint = ''/pg/v1/pay'';
          checksum = sha256_hex e (base64Payload @ apiEndpoint @ SALT_KEY e)
                       @ ''###'' @ SALT_INDEX e
      in \<lparr>url = PHONEPE_API_URL @ apiEndpoint,
          http_method = ''POST'',
          headers = [(''Content-Type'', ''application/json''), (''X-VERIFY'', checksum)],
          body = Some (JSON_stringify e (JObject [(''request'', JString base64Payload)]))\<rparr>)"

text \<open>\<open>responseData.data?.instrumentResponse?.redirectInfo?.url\<close>.\<close>

definition optional_url :: "PhonePeData \<Rightarrow> string option" where
  "optional_url d = (case resp_redirect d of Path_undefined _ \<Rightarrow> None | Url u \<Rightarrow> u)"

text \<open>The \<open>try\<close> block of \<open>processPrepaidOrder\<close>.\<close>

definition processPrepaidOrder_try :: "env \<Rightarrow> OrderSchema \<Rightarrow> Result action" where
  "processPrepaidOrder_try e d =
     and_then (fetchLocationAndPrice e) (\<lambda>prices'.
     let price' = price_of prices' (data_variant d) in
     and_then (addPendingOrder e (merchantTransactionId e) (orderDetails d price' Prepaid)) (\<lambda>_.
     and_then (do_fetch e (processPrepaidOrder_request e d price')) (\<lambda>outcome.
       case outcome of
         Rejects m \<Rightarrow> throw m
       | Responds responseData \<Rightarrow>
           if \<not> resp_success responseData \<or> \<not> truthy (optional_url responseData)
           then
             and_then (deletePendingOrder e (merchantTransactionId e)) (\<lambda>_.
             throw (or_else (resp_message responseData)
                      ''Failed to initiate payment with PhonePe.''))
           else
             resolve ((result True ''Redirecting to payment gateway.'')
                        \<lparr>redirectUrl := optional_url responseData\<rparr>))))"

definition processPrepaidOrder :: "env \<Rightarrow> OrderSchema \<Rightarrow> world \<Rightarrow> Result \<times> world" where
  "processPrepaidOrder e d s =
     (if \<not> OrderSchema_safeParse e d then
        (result False ''Invalid data provided. Please check the form.'', s)
      else
        (case processPrepaidOrder_try e d s of
           (Inr r, s') \<Rightarrow> (r, s')
         | (Inl err, s') \<Rightarrow>
             (result False
                (if err = []
                 then ''An unexpected error occurred during payment processing.''
                 else err),
              s')))"

definition status_text :: "OrderStatus \<Rightarrow> string" where
  "status_text st =
     (case st of New \<Rightarrow> ''new'' | Dispatched \<Rightarrow> ''dispatched''
      | Delivered \<Rightarrow> ''delivered'' | Cancelled \<Rightarrow> ''cancelled'')"

definition changeOrderStatus ::
  "env \<Rightarrow> string \<Rightarrow> string \<Rightarrow> OrderStatus \<Rightarrow> world \<Rightarrow> Result \<times> world" where
  "changeOrderStatus e userId' orderId' status' s =
     (case and_then (updateOrderStatus e userId' orderId' status' None) (\<lambda>_.
           and_then (revalidatePath ''/admin'') (\<lambda>_.
           and_then (revalidatePath ''/orders'') (\<lambda>_.
           resolve (result True
             (''Order '' @ orderId' @ '' status updated to '' @ status_text status'))))) s of
        (Inr r, s') \<Rightarrow> (r, s')
      | (Inl err, s') \<Rightarrow>
          (result False (if err = [] then ''Failed to update order status.'' else err), s'))"

definition submitReview_actions_try :: "env \<Rightarrow> ReviewData \<Rightarrow> Result action" where
  "submitReview_actions_try e d =
     (if \<not> ReviewSchema d then throw ZodError_message
      else
        and_then (addReview e (ReviewData.extend d
                    (Review.fields (or_else (currentUser_displayName e) ''Anonymous'')))) (\<lambda>_.
        and_then (updateOrderStatus e (review_userId d) (review_orderId d) Delivered
                    (Some True)) (\<lambda>_.
        and_then (revalidatePath ''/'') (\<lambda>_.
        and_then (revalidatePath ''/orders'') (\<lambda>_.
        resolve (result True ''Review submitted successfully.''))))))"

definition submitReview_actions :: "env \<Rightarrow> ReviewData \<Rightarrow> world \<Rightarrow> Result \<times> world" where
  "submitReview_actions e d s =
     (case submitReview_actions_try e d s of
        (Inr r, s') \<Rightarrow> (r, s')
      | (Inl err, s') \<Rightarrow>
          (result False (if err = [] then ''Failed to submit review.'' else err), s'))"

section \<open>Notions used in the statements\<close>

text \<open>The ledger entry of the discount code that a form submission supplies: none when no
  code is supplied (an empty code counts as none, as in the source's test
  \<open>if (discountCode)\<close>) or when the ledger does not have the code.\<close>

definition supplied_discount :: "world \<Rightarrow> OrderPayload \<Rightarrow> Discount option" where
  "supplied_discount s p =
     (case payload_discountCode p of
        None \<Rightarrow> None
      | Some c \<Rightarrow> if c = [] then None else discounts s c)"

text \<open>The discount on a price: the rounded share for the supplied code, if the ledger has
  it, and zero otherwise.\<close>

definition discount_for :: "world \<Rightarrow> OrderPayload \<Rightarrow> real \<Rightarrow> real" where
  "discount_for s p orig =
     (case supplied_discount s p of
        None \<Rightarrow> 0
      | Some d \<Rightarrow> real_of_int (round (orig * (percent d / 100))))"

text \<open>The order that \<open>placeOrder\<close> hands to the store, as the store returns it, and the
  state right after the store has persisted it.\<close>

definition placeOrder_newOrder :: "env \<Rightarrow> world \<Rightarrow> OrderPayload \<Rightarrow> Order" where
  "placeOrder_newOrder e s p =
     (let orig = price_of (prices e) (payload_variant p); da = discount_for s p orig
      in OrderData.extend (newOrderData p (orig - da) orig da)
           (Order.fields (new_order_id e) New (Date_now e) False))"

definition placeOrder_persisted :: "env \<Rightarrow> world \<Rightarrow> OrderPayload \<Rightarrow> world" where
  "placeOrder_persisted e s p =
     s\<lparr>orders := (orders s)((payload_userId p, new_order_id e) \<mapsto> placeOrder_newOrder e s p),
       logs := logs s @ [(''info'', ''Attempting to add order to database with clean data...''),
                         (''info'', ''Order successfully created in database.'')]\<rparr>"

text \<open>The three payment-gateway credentials are set in the process environment.\<close>

definition configured :: "env \<Rightarrow> bool" where
  "configured e \<longleftrightarrow> truthy (PHONEPE_MERCHANT_ID e) \<and> truthy (PHONEPE_SALT_KEY e)
     \<and> truthy (PHONEPE_SALT_INDEX e)"

section \<open>Example data\<close>

text \<open>A configured environment in which no store operation rejects and the payment
  provider cannot be reached, a shop with ten copies of each variant and the discount code
  SAVE10 (10 percent), and sample form submissions. The library functions are stand-ins.\<close>

definition demo_env :: env where
  "demo_env =
     \<lparr>isEmail = (\<lambda>a. CHR ''@'' \<in> set a),
      prices = \<lparr>paperback = 500, hardcover = 800\<rparr>,
      throws = (\<lambda>_. None),
      new_order_id = ''order-1'',
      Date_now = ''1700000000000'',
      uuidv4 = ''9b2f6c1e-0000-4000-8000-000000000000'',
      currentUser_displayName = None,
      NEXT_PUBLIC_IS_PRODUCTION = None,
      NEXT_PUBLIC_HOST_URL = Some ''https://shop.example'',
      PHONEPE_MERCHANT_ID = Some ''MERCHANT1'',
      PHONEPE_SALT_KEY = Some ''salt'',
      PHONEPE_SALT_INDEX = Some ''1'',
      fetch = (\<lambda>_. Rejects ''network down''),
      JSON_stringify = (\<lambda>_. ''{}''),
      base64 = (\<lambda>x. x),
      sha256_hex = (\<lambda>_. ''00''),
      parseInt = (\<lambda>x. x)\<rparr>"

definition demo_world :: world where
  "demo_world =
     \<lparr>orders = Map.empty,
      pendingOrders = Map.empty,
      stock = (\<lambda>_. 10),
      discounts = [''SAVE10'' \<mapsto> \<lparr>code = ''SAVE10'', percent = 10, usageCount = 0\<rparr>],
      reviews = [],
      logs = [],
      revalidated = [],
      sent = []\<rparr>"

definition demo_payload :: OrderPayload where
  "demo_payload =
     \<lparr>payload_variant = Paperback, payload_name = ''Asha'',
      payload_email = ''asha@example.com'', payload_phone = ''9876543210'',
      payload_address = ''12 Hill Road'', payload_street = None, payload_city = ''Kochi'',
      payload_country = ''India'', payload_state = ''Kerala'', payload_pinCode = ''682001'',
      payload_userId = ''u1'', payload_discountCode = Some ''SAVE10'',
      payload_paymentMethod = Cod\<rparr>"

definition demo_data :: OrderSchema where
  "demo_data =
     \<lparr>data_variant = Paperback, data_name = ''Asha'', data_email = ''asha@example.com'',
      data_phone = Some ''9876543210'', data_address = None, data_street = None,
      data_city = None, data_country = None, data_state = None, data_pinCode = None,
      data_userId = ''u1''\<rparr>"

definition demo_cod_data :: CodOrderSchema where
  "demo_cod_data =
     \<lparr>data_variant = Paperback, data_name = ''Asha'', data_email = ''asha@example.com'',
      data_phone = None, data_address = None, data_street = None, data_city = None,
      data_country = None, data_state = None, data_pinCode = None, data_userId = ''u1'',
      data_paymentMethod = Cod\<rparr>"

text \<open>The same submission with a discount code that the ledger does not have.\<close>

definition demo_payload_unknown_code :: OrderPayload where
  "demo_payload_unknown_code = demo_payload\<lparr>payload_discountCode := Some ''BOGUS''\<rparr>"



definition refusing_answer :: PhonePeData where
  "refusing_answer =
     \<lparr>resp_success = False, resp_message = Some ''Bad request'',
      resp_redirect = Path_undefined ''Cannot read properties of undefined''\<rparr>"

definition gateway_refuses :: "Request \<Rightarrow> FetchOutcome" where
  "gateway_refuses req = Responds refusing_answer"

definition demo_payload_prepaid :: OrderPayload where
  "demo_payload_prepaid = demo_payload\<lparr>payload_paymentMethod := Prepaid\<rparr>"

text \<open>A stored order of the sample customer in a given status, a shop that holds it, and
  a review of it.\<close>

definition demo_order :: "OrderStatus \<Rightarrow> Order" where
  "demo_order st =
     OrderData.extend (orderDetails demo_data 500 Cod)
       (Order.fields ''order-1'' st ''1699999999999'' False)"

definition demo_world_with :: "OrderStatus \<Rightarrow> world" where
  "demo_world_with st = demo_world\<lparr>orders := [(''u1'', ''order-1'') \<mapsto> demo_order st]\<rparr>"

definition demo_review :: ReviewData where
  "demo_review =
     \<lparr>review_orderId = ''order-1'', review_userId = ''u1'', rating = 5,
      reviewText = Some ''Luminous.''\<rparr>"

text \<open>A process environment without the three payment-gateway variables; the provider
  refuses what it is sent.\<close>

definition unconfigured_env :: env where
  "unconfigured_env =
     demo_env\<lparr>PHONEPE_MERCHANT_ID := None, PHONEPE_SALT_KEY := None,
              PHONEPE_SALT_INDEX := None, fetch := gateway_refuses\<rparr>"

text \<open>The store of orders cannot be written.\<close>

definition addOrder_unavailable :: "store_op \<Rightarrow> string option" where
  "addOrder_unavailable op = (if op = AddOrder then Some ''unavailable'' else None)"

section \<open>Properties\<close>

lemmas action_defs = resolve_def throw_def and_then_def addLog_def revalidatePath_def

subsection \<open>The COD-only \<open>placeOrder\<close> of \<open>src/lib/actions.ts\<close>\<close>

text \<open>
  C10. In the COD-only \<open>placeOrder\<close> the stock decrement runs before the order is
  persisted. Whenever the input is valid, the price lookup and the decrement succeed and
  \<open>addOrder\<close> rejects, the action returns \<open>success: false\<close>, no order is stored, and the
  stock of the ordered variant stays one lower than before: nothing puts the unit back.
\<close>

theorem placeOrder_actions_stock_not_restored:
  assumes "CodOrderSchema_safeParse e d"
    and "throws e FetchLocationAndPrice = None"
    and "throws e DecreaseStock = None"
    and "throws e AddOrder = Some m"
  shows "\<not> success (fst (placeOrder_actions e d s))
       \<and> stock (snd (placeOrder_actions e d s)) (data_variant d) = stock s (data_variant d) - 1
       \<and> orders (snd (placeOrder_actions e d s)) = orders s"
proof -
  from assms(1) have v: "data_variant d \<noteq> Ebook"
    by (auto simp: CodOrderSchema_safeParse_def OrderSchema_safeParse_def)
  have "placeOrder_actions_try e d s =
          (Inl m, s\<lparr>stock := (stock s)(data_variant d := stock s (data_variant d) - 1)\<rparr>)"
    using assms(2-4) v
    by (simp add: placeOrder_actions_try_def fetchLocationAndPrice_def decreaseStock_def
        addOrder_def action_defs)
  with assms(1) show ?thesis
    by (simp add: placeOrder_actions_def result_def)
qed

theorem placeOrder_actions_stock_not_restored_witness:
  "CodOrderSchema_safeParse (demo_env\<lparr>throws := addOrder_unavailable\<rparr>) demo_cod_data
   \<and> \<not> success (fst (placeOrder_actions (demo_env\<lparr>throws := addOrder_unavailable\<rparr>)
                      demo_cod_data demo_world))
   \<and> stock demo_world Paperback = 10
   \<and> stock (snd (placeOrder_actions (demo_env\<lparr>throws := addOrder_unavailable\<rparr>)
                  demo_cod_data demo_world)) Paperback = 9
   \<and> orders (snd (placeOrder_actions (demo_env\<lparr>throws := addOrder_unavailable\<rparr>)
                   demo_cod_data demo_world)) = Map.empty"
proof -
  let ?e = "demo_env\<lparr>throws := addOrder_unavailable\<rparr>"
  have v: "CodOrderSchema_safeParse ?e demo_cod_data"
    by (simp add: CodOrderSchema_safeParse_def OrderSchema_safeParse_def demo_env_def
        demo_cod_data_def)
  have "\<not> success (fst (placeOrder_actions ?e demo_cod_data demo_world))
       \<and> stock (snd (placeOrder_actions ?e demo_cod_data demo_world)) (data_variant demo_cod_data)
           = stock demo_world (data_variant demo_cod_data) - 1
       \<and> orders (snd (placeOrder_actions ?e demo_cod_data demo_world)) = orders demo_world"
    by (rule placeOrder_actions_stock_not_restored [OF v, of "''unavailable''"])
       (simp_all add: demo_env_def addOrder_unavailable_def)
  with v show ?thesis
    by (simp add: demo_cod_data_def demo_world_def)
qed

subsection \<open>\<open>placeOrder\<close> of the unified module\<close>

lemma Math_round_eq_round: "Math_round x = round x"
  by (simp add: Math_round_def round_def)

lemma initiatePhonePePayment_frame:
  assumes "initiatePhonePePayment e ord s = (x, s')"
  shows "orders s' = orders s \<and> pendingOrders s' = pendingOrders s \<and> stock s' = stock s
       \<and> discounts s' = discounts s \<and> reviews s' = reviews s"
  using assms
  by (auto simp: initiatePhonePePayment_def initiatePhonePePayment_catch_def do_fetch_def
      action_defs split: if_splits FetchOutcome.splits redirect_path.splits)

lemma placeOrder_prepaid_frame:
  assumes "placeOrder_prepaid e ord s = (x, s')"
  shows "orders s' = orders s \<and> pendingOrders s' = pendingOrders s \<and> stock s' = stock s
       \<and> discounts s' = discounts s \<and> reviews s' = reviews s"
proof (cases "initiatePhonePePayment e ord s")
  case (Pair y t)
  from initiatePhonePePayment_frame [OF Pair] Pair assms show ?thesis
    by (auto simp: placeOrder_prepaid_def action_defs split: sum.splits if_splits)
qed

lemma placeOrder_cod_frame:
  assumes "placeOrder_cod e p ord s = (x, s')"
  shows "orders s' = orders s \<and> pendingOrders s' = pendingOrders s \<and> reviews s' = reviews s
       \<and> sent s' = sent s"
  using assms
  by (auto simp: placeOrder_cod_def decreaseStock_def incrementDiscountUsage_def action_defs
      split: if_splits option.splits)

lemma placeOrder_cod_success:
  assumes "placeOrder_cod e p ord s = (Inr r, s')"
  shows "success r \<and> orderId r = Some (order_id ord)
       \<and> stock s' = (if payload_variant p = Ebook then stock s
                      else (stock s)(payload_variant p := stock s (payload_variant p) - 1))
       \<and> discounts s' =
           (case supplied_discount s p of
              None \<Rightarrow> discounts s
            | Some d \<Rightarrow> (discounts s)(str (payload_discountCode p)
                          \<mapsto> d\<lparr>usageCount := usageCount d + 1\<rparr>))"
  using assms
  by (auto simp: placeOrder_cod_def decreaseStock_def incrementDiscountUsage_def action_defs
      supplied_discount_def truthy_def str_def result_def
      split: if_splits option.splits)

lemma placeOrder_discount_value:
  assumes "throws e GetDiscount = None"
  shows "placeOrder_discount e (payload_discountCode p) orig s
           = (Inr (orig - discount_for s p orig, discount_for s p orig), s)"
  using assms
  by (simp add: placeOrder_discount_def getDiscount_def action_defs discount_for_def
      supplied_discount_def truthy_def str_def Math_round_eq_round Let_def
      split: option.splits)

lemma placeOrder_discount_frame:
  assumes "placeOrder_discount e c orig s = (x, s')"
  shows "s' = s"
  using assms
  by (auto simp: placeOrder_discount_def getDiscount_def action_defs Let_def
      split: if_splits option.splits)

text \<open>The \<open>try\<close> block up to the branch on the payment method, when the discount lookup
  does not reject.\<close>

lemma placeOrder_try_run:
  assumes "throws e GetDiscount = None"
  shows "placeOrder_try e p s =
     (case throws e FetchLocationAndPrice of
        Some m \<Rightarrow> (Inl m, s)
      | None \<Rightarrow>
         (case throws e AddOrder of
            Some m \<Rightarrow> (Inl m, s\<lparr>logs := logs s @
                [(''info'', ''Attempting to add order to database with clean data...'')]\<rparr>)
          | None \<Rightarrow>
              (if payload_paymentMethod p = Cod
               then placeOrder_cod e p (placeOrder_newOrder e s p) (placeOrder_persisted e s p)
               else placeOrder_prepaid e (placeOrder_newOrder e s p)
                      (placeOrder_persisted e s p))))"
  using assms
  by (simp add: placeOrder_try_def fetchLocationAndPrice_def addOrder_def action_defs Let_def
      placeOrder_discount_value newOrderData_def placeOrder_newOrder_def
      placeOrder_persisted_def split: option.splits)

lemma placeOrder_try_orders:
  assumes "throws e FetchLocationAndPrice = None"
    and "throws e GetDiscount = None"
    and "throws e AddOrder = None"
  shows "orders (snd (placeOrder_try e p s)) (payload_userId p, new_order_id e)
           = Some (placeOrder_newOrder e s p)"
proof -
  let ?ord = "placeOrder_newOrder e s p" and ?t = "placeOrder_persisted e s p"
  have "orders (snd (placeOrder_try e p s)) = orders ?t"
  proof (cases "payload_paymentMethod p = Cod")
    case True
    then show ?thesis
      using placeOrder_cod_frame [of e p ?ord ?t] assms
      by (cases "placeOrder_cod e p ?ord ?t") (simp add: placeOrder_try_run)
  next
    case False
    then show ?thesis
      using placeOrder_prepaid_frame [of e ?ord ?t] assms
      by (cases "placeOrder_prepaid e ?ord ?t") (simp add: placeOrder_try_run)
  qed
  then show ?thesis
    by (simp add: placeOrder_persisted_def)
qed

lemma placeOrder_orders:
  assumes "OrderFormSchema e p"
  shows "orders (snd (placeOrder e p s))
           = orders (snd (placeOrder_try e p
                (snd (addLog ''info'' ''placeOrder action initiated.'' s))))"
  using assms
  by (simp add: placeOrder_def Let_def addLog_def split: prod.splits sum.splits)

lemma supplied_discount_log:
  "supplied_discount (snd (addLog level msg s)) p = supplied_discount s p"
  by (simp add: supplied_discount_def addLog_def split: option.splits)

lemma placeOrder_newOrder_log:
  "placeOrder_newOrder e (snd (addLog level msg s)) p = placeOrder_newOrder e s p"
  by (simp add: placeOrder_newOrder_def discount_for_def supplied_discount_log)

text \<open>The order found in the store after a placement whose price lookup, discount lookup
  and persistence do not reject.\<close>

lemma placeOrder_persists:
  assumes "OrderFormSchema e p"
    and "throws e FetchLocationAndPrice = None"
    and "throws e GetDiscount = None"
    and "throws e AddOrder = None"
  shows "orders (snd (placeOrder e p s)) (payload_userId p, new_order_id e)
           = Some (placeOrder_newOrder e s p)"
  by (simp add: placeOrder_orders [OF assms(1)] placeOrder_try_orders [OF assms(2-4)]
      placeOrder_newOrder_log)

lemma placeOrder_newOrder_fields:
  "originalPrice (placeOrder_newOrder e s p) = Some (price_of (prices e) (payload_variant p))"
  "discountAmount (placeOrder_newOrder e s p)
     = Some (discount_for s p (price_of (prices e) (payload_variant p)))"
  "price (placeOrder_newOrder e s p)
     = price_of (prices e) (payload_variant p)
         - discount_for s p (price_of (prices e) (payload_variant p))"
  "discountCode (placeOrder_newOrder e s p) = Some (or_else (payload_discountCode p) [])"
  "order_id (placeOrder_newOrder e s p) = new_order_id e"
  "status (placeOrder_newOrder e s p) = New"
  "hasReview (placeOrder_newOrder e s p) = False"
  by (simp_all add: placeOrder_newOrder_def newOrderData_def OrderData.defs Order.defs Let_def)


lemma demo_valid: "OrderFormSchema demo_env demo_payload"
  by (simp add: OrderFormSchema_def demo_env_def demo_payload_def)

lemma demo_throws: "throws demo_env op = None"
  by (simp add: demo_env_def)

lemma demo_supplied_discount:
  "supplied_discount demo_world demo_payload
     = Some \<lparr>code = ''SAVE10'', percent = 10, usageCount = 0\<rparr>"
  by (simp add: supplied_discount_def demo_world_def demo_payload_def)


lemma placeOrder_try_cod_success:
  assumes "placeOrder_try e p s = (Inr r, s')" and "payload_paymentMethod p = Cod"
  shows "\<exists>ord t. placeOrder_cod e p ord t = (Inr r, s') \<and> order_id ord = new_order_id e
           \<and> stock t = stock s \<and> discounts t = discounts s
           \<and> orders t (payload_userId p, new_order_id e) = Some ord"
  using assms
  apply (simp add: placeOrder_try_def fetchLocationAndPrice_def addOrder_def action_defs Let_def
      split: option.splits prod.splits sum.splits)
  apply (drule placeOrder_discount_frame)
  apply (rule exI, rule exI, rule conjI, assumption)
  apply (simp add: newOrderData_def OrderData.defs Order.defs)
  done

lemma placeOrder_cod_succeeds:
  assumes "OrderFormSchema e p" and "payload_paymentMethod p = Cod"
    and "\<And>op. throws e op = None"
  shows "success (fst (placeOrder e p s))"
  using assms(1,2)
  by (simp add: placeOrder_def placeOrder_try_def placeOrder_cod_def fetchLocationAndPrice_def
      addOrder_def decreaseStock_def incrementDiscountUsage_def placeOrder_discount_value
      action_defs Let_def result_def assms(3) split: option.splits)

text \<open>
  C2. Every successful COD placement (\<open>placeOrder\<close> with payment method \<open>cod\<close> returning
  \<open>success: true\<close>) has taken exactly one unit off the stock of the ordered variant and
  left the other variants alone; it has added one to the usage counter of the supplied
  code if the ledger has that code (a discount was applied) and has left the ledger as it
  was otherwise; and it returns the id of the new order, which is in the store.
\<close>

theorem placeOrder_cod_success_effects:
  assumes "placeOrder e p s = (r, s')" and "payload_paymentMethod p = Cod" and "success r"
  shows "stock s' = (stock s)(payload_variant p := stock s (payload_variant p) - 1)
       \<and> (case supplied_discount s p of
             None \<Rightarrow> discounts s' = discounts s
           | Some d \<Rightarrow> discounts s' = (discounts s)(str (payload_discountCode p)
                         \<mapsto> d\<lparr>usageCount := usageCount d + 1\<rparr>))
       \<and> orderId r = Some (new_order_id e)
       \<and> orders s' (payload_userId p, new_order_id e) \<noteq> None"
proof -
  let ?s1 = "snd (addLog ''info'' ''placeOrder action initiated.'' s)"
  from assms(1,3) have valid: "OrderFormSchema e p"
    by (auto simp: placeOrder_def result_def Let_def split: if_splits)
  then have v: "payload_variant p \<noteq> Ebook"
    by (auto simp: OrderFormSchema_def)
  from assms(1,3) valid have tr: "placeOrder_try e p ?s1 = (Inr r, s')"
    by (auto simp: placeOrder_def result_def Let_def split: sum.splits prod.splits)
  from placeOrder_try_cod_success [OF tr assms(2)]
  obtain ord t where cod: "placeOrder_cod e p ord t = (Inr r, s')"
    and ord: "order_id ord = new_order_id e"
    and t: "stock t = stock ?s1" "discounts t = discounts ?s1"
      "orders t (payload_userId p, new_order_id e) = Some ord"
    by blast
  have s1: "stock ?s1 = stock s" "discounts ?s1 = discounts s"
    by (simp_all add: addLog_def)
  have sd: "supplied_discount t p = supplied_discount s p"
    using t s1 by (simp add: supplied_discount_def split: option.splits)
  from placeOrder_cod_success [OF cod] placeOrder_cod_frame [OF cod] v ord t s1 sd
  show ?thesis
    by (auto split: option.splits)
qed

text \<open>The SAVE10 scenario: a COD paperback order at base price 500 with the 10 percent code
  SAVE10 succeeds with \<open>discountAmount = 50\<close> and \<open>price = 450\<close>, the paperback stock goes
  from 10 to 9 and the usage counter of SAVE10 from 0 to 1.\<close>

theorem placeOrder_cod_success_effects_witness:
  "payload_paymentMethod demo_payload = Cod
   \<and> success (fst (placeOrder demo_env demo_payload demo_world))
   \<and> orderId (fst (placeOrder demo_env demo_payload demo_world)) = Some ''order-1''
   \<and> stock demo_world Paperback = 10
   \<and> stock (snd (placeOrder demo_env demo_payload demo_world)) Paperback = 9
   \<and> stock (snd (placeOrder demo_env demo_payload demo_world)) Hardcover = 10
   \<and> map_option usageCount (discounts demo_world ''SAVE10'') = Some 0
   \<and> map_option usageCount
         (discounts (snd (placeOrder demo_env demo_payload demo_world)) ''SAVE10'') = Some 1
   \<and> map_option discountAmount
         (orders (snd (placeOrder demo_env demo_payload demo_world)) (''u1'', ''order-1''))
       = Some (Some 50)
   \<and> map_option price
         (orders (snd (placeOrder demo_env demo_payload demo_world)) (''u1'', ''order-1''))
       = Some 450"
proof -
  obtain r s' where run: "placeOrder demo_env demo_payload demo_world = (r, s')"
    by (cases "placeOrder demo_env demo_payload demo_world")
  have cod: "payload_paymentMethod demo_payload = Cod"
    by (simp add: demo_payload_def)
  have ok: "success r"
    using placeOrder_cod_succeeds [OF demo_valid cod demo_throws, of demo_world] run
    by simp
  have "orders s' (payload_userId demo_payload, new_order_id demo_env)
          = Some (placeOrder_newOrder demo_env demo_world demo_payload)"
    using placeOrder_persists [OF demo_valid demo_throws demo_throws demo_throws, of demo_world]
      run
    by simp
  then have ord: "orders s' (''u1'', ''order-1'')
                    = Some (placeOrder_newOrder demo_env demo_world demo_payload)"
    by (simp add: demo_env_def demo_payload_def)
  have amount: "discount_for demo_world demo_payload
                  (price_of (prices demo_env) (payload_variant demo_payload)) = 50"
    by (simp add: discount_for_def demo_supplied_discount)
       (simp add: price_of_def demo_env_def demo_payload_def)
  have orig: "price_of (prices demo_env) (payload_variant demo_payload) = 500"
    by (simp add: price_of_def demo_env_def demo_payload_def)
  from placeOrder_cod_success_effects [OF run cod ok] run cod ok ord amount orig
  show ?thesis
    by (simp add: demo_supplied_discount placeOrder_newOrder_fields)
       (simp add: demo_env_def demo_world_def demo_payload_def str_def)
qed

lemma placeOrder_cod_unknown_code:
  assumes "payload_discountCode p = Some c" and "discounts t c = None"
    and "throws e IncrementDiscountUsage = None"
  shows "placeOrder_cod e p ord t = placeOrder_cod e (p\<lparr>payload_discountCode := None\<rparr>) ord t"
  using assms
  by (simp add: placeOrder_cod_def decreaseStock_def incrementDiscountUsage_def truthy_def
      str_def action_defs split: option.splits)

lemma placeOrder_cod_order_id:
  "order_id ord = order_id ord' \<Longrightarrow> placeOrder_cod e p ord = placeOrder_cod e p ord'"
  by (simp add: placeOrder_cod_def)

lemma placeOrder_cod_orders_update:
  "placeOrder_cod e p ord (t\<lparr>orders := os\<rparr>)
     = (fst (placeOrder_cod e p ord t), (snd (placeOrder_cod e p ord t))\<lparr>orders := os\<rparr>)"
  by (simp add: placeOrder_cod_def decreaseStock_def incrementDiscountUsage_def action_defs
      split: option.splits)

lemma initiatePhonePePayment_orders_update:
  "initiatePhonePePayment e ord (t\<lparr>orders := os\<rparr>)
     = (fst (initiatePhonePePayment e ord t),
        (snd (initiatePhonePePayment e ord t))\<lparr>orders := os\<rparr>)"
  by (simp add: initiatePhonePePayment_def initiatePhonePePayment_catch_def do_fetch_def
      action_defs split: FetchOutcome.splits redirect_path.splits)

lemma initiatePhonePePayment_request_cong:
  "initiatePhonePePayment_request e ord = initiatePhonePePayment_request e ord'
   \<Longrightarrow> initiatePhonePePayment e ord = initiatePhonePePayment e ord'"
  by (simp add: initiatePhonePePayment_def)

lemma placeOrder_prepaid_orders_update:
  "placeOrder_prepaid e ord (t\<lparr>orders := os\<rparr>)
     = (fst (placeOrder_prepaid e ord t), (snd (placeOrder_prepaid e ord t))\<lparr>orders := os\<rparr>)"
  by (cases "initiatePhonePePayment e ord t")
     (simp add: placeOrder_prepaid_def and_then_def initiatePhonePePayment_orders_update
      resolve_def addLog_def split: sum.splits)

lemma placeOrder_prepaid_request_cong:
  assumes "initiatePhonePePayment_request e ord = initiatePhonePePayment_request e ord'"
  shows "placeOrder_prepaid e ord = placeOrder_prepaid e ord'"
  unfolding placeOrder_prepaid_def initiatePhonePePayment_request_cong [OF assms] ..


lemma unknown_code_discount_for:
  assumes "payload_discountCode p = Some c" and "discounts s c = None"
  shows "discount_for s p orig = 0"
    and "discount_for s (p\<lparr>payload_discountCode := None\<rparr>) orig = 0"
  using assms by (simp_all add: discount_for_def supplied_discount_def)

lemma unknown_code_newOrder:
  assumes "payload_discountCode p = Some c" and "discounts s c = None"
  shows "placeOrder_newOrder e s p
           = (placeOrder_newOrder e s (p\<lparr>payload_discountCode := None\<rparr>))
               \<lparr>discountCode := Some c\<rparr>"
  using assms
  by (simp add: placeOrder_newOrder_def unknown_code_discount_for [OF assms] newOrderData_def
      or_else_def OrderData.defs Order.defs Let_def)

lemma unknown_code_persisted:
  "placeOrder_persisted e s p
     = (placeOrder_persisted e s (p\<lparr>payload_discountCode := None\<rparr>))
         \<lparr>orders := orders (placeOrder_persisted e s p)\<rparr>"
  by (simp add: placeOrder_persisted_def)

lemma orders_update_snd:
  assumes "X = (fst X0, (snd X0)\<lparr>orders := os\<rparr>)"
  shows "X = (fst X0, (snd X0)\<lparr>orders := orders (snd X)\<rparr>)"
  using assms by simp

lemma unknown_code_try:
  assumes "payload_discountCode p = Some c" and "discounts s c = None"
    and "throws e GetDiscount = None" and "throws e IncrementDiscountUsage = None"
  shows "placeOrder_try e p s
           = (fst (placeOrder_try e (p\<lparr>payload_discountCode := None\<rparr>) s),
              (snd (placeOrder_try e (p\<lparr>payload_discountCode := None\<rparr>) s))
                \<lparr>orders := orders (snd (placeOrder_try e p s))\<rparr>)"
proof -
  let ?q = "p\<lparr>payload_discountCode := None\<rparr>"
  let ?ord = "placeOrder_newOrder e s p" and ?old = "placeOrder_newOrder e s ?q"
  let ?t = "placeOrder_persisted e s p" and ?u = "placeOrder_persisted e s ?q"
  note ord = unknown_code_newOrder [OF assms(1,2), of e]
  have t: "?t = ?u\<lparr>orders := orders ?t\<rparr>"
    by (rule unknown_code_persisted)
  have cod: "placeOrder_cod e p ?ord ?t
               = (fst (placeOrder_cod e ?q ?old ?u),
                  (snd (placeOrder_cod e ?q ?old ?u))\<lparr>orders := orders ?t\<rparr>)"
  proof -
    have "discounts ?t c = None"
      using assms(2) by (simp add: placeOrder_persisted_def)
    then have "placeOrder_cod e p ?ord ?t = placeOrder_cod e ?q ?ord ?t"
      by (rule placeOrder_cod_unknown_code [OF assms(1) _ assms(4)])
    also have "placeOrder_cod e ?q ?ord = placeOrder_cod e ?q ?old"
      by (rule placeOrder_cod_order_id) (simp add: ord)
    also have "placeOrder_cod e ?q ?old ?t
                 = placeOrder_cod e ?q ?old (?u\<lparr>orders := orders ?t\<rparr>)"
      using t by simp
    finally show ?thesis
      by (simp only: placeOrder_cod_orders_update)
  qed
  have prepaid: "placeOrder_prepaid e ?ord ?t
               = (fst (placeOrder_prepaid e ?old ?u),
                  (snd (placeOrder_prepaid e ?old ?u))\<lparr>orders := orders ?t\<rparr>)"
  proof -
    have "initiatePhonePePayment_request e ?ord = initiatePhonePePayment_request e ?old"
      by (simp add: ord initiatePhonePePayment_request_def initiatePhonePePayment_payload_def)
    then have "placeOrder_prepaid e ?ord = placeOrder_prepaid e ?old"
      by (rule placeOrder_prepaid_request_cong)
    then have "placeOrder_prepaid e ?ord ?t
                 = placeOrder_prepaid e ?old (?u\<lparr>orders := orders ?t\<rparr>)"
      using t by simp
    then show ?thesis
      by (simp only: placeOrder_prepaid_orders_update)
  qed
  have "\<exists>os. placeOrder_try e p s
           = (fst (placeOrder_try e ?q s), (snd (placeOrder_try e ?q s))\<lparr>orders := os\<rparr>)"
  proof (cases "throws e FetchLocationAndPrice")
    case (Some m)
    then have "placeOrder_try e p s
                 = (fst (placeOrder_try e ?q s),
                    (snd (placeOrder_try e ?q s))\<lparr>orders := orders s\<rparr>)"
      by (simp add: placeOrder_try_run [OF assms(3)])
    then show ?thesis by blast
  next
    case None
    note flp = this
    show ?thesis
    proof (cases "throws e AddOrder")
      case (Some m)
      with flp have "placeOrder_try e p s
                 = (fst (placeOrder_try e ?q s),
                    (snd (placeOrder_try e ?q s))\<lparr>orders := orders s\<rparr>)"
        by (simp add: placeOrder_try_run [OF assms(3)])
      then show ?thesis by blast
    next
      case None
      with flp cod prepaid have "placeOrder_try e p s
                 = (fst (placeOrder_try e ?q s),
                    (snd (placeOrder_try e ?q s))\<lparr>orders := orders ?t\<rparr>)"
        by (simp add: placeOrder_try_run [OF assms(3)])
      then show ?thesis by blast
    qed
  qed
  then obtain os where "placeOrder_try e p s
           = (fst (placeOrder_try e ?q s), (snd (placeOrder_try e ?q s))\<lparr>orders := os\<rparr>)" ..
  then show ?thesis
    by (rule orders_update_snd)
qed

lemma OrderFormSchema_discountCode:
  "OrderFormSchema e (p\<lparr>payload_discountCode := x\<rparr>) = OrderFormSchema e p"
  by (simp add: OrderFormSchema_def)

lemma unknown_code_placeOrder:
  assumes "payload_discountCode p = Some c" and "discounts s c = None"
    and "throws e GetDiscount = None" and "throws e IncrementDiscountUsage = None"
  shows "placeOrder e p s
           = (fst (placeOrder e (p\<lparr>payload_discountCode := None\<rparr>) s),
              (snd (placeOrder e (p\<lparr>payload_discountCode := None\<rparr>) s))
                \<lparr>orders := orders (snd (placeOrder e p s))\<rparr>)"
proof -
  let ?q = "p\<lparr>payload_discountCode := None\<rparr>"
  let ?s1 = "snd (addLog ''info'' ''placeOrder action initiated.'' s)"
  have "discounts ?s1 c = None"
    using assms(2) by (simp add: addLog_def)
  note tr = unknown_code_try [OF assms(1) this assms(3,4)]
  obtain x u where q: "placeOrder_try e ?q ?s1 = (x, u)"
    by (cases "placeOrder_try e ?q ?s1")
  with tr obtain os where p: "placeOrder_try e p ?s1 = (x, u\<lparr>orders := os\<rparr>)"
    by simp
  have "\<exists>os. placeOrder e p s
           = (fst (placeOrder e ?q s), (snd (placeOrder e ?q s))\<lparr>orders := os\<rparr>)"
  proof (cases "OrderFormSchema e p")
    case False
    then have "placeOrder e p s
           = (fst (placeOrder e ?q s), (snd (placeOrder e ?q s))\<lparr>orders := orders s\<rparr>)"
      by (simp add: placeOrder_def OrderFormSchema_discountCode addLog_def)
    then show ?thesis by blast
  next
    case True
    then have "placeOrder e p s
           = (fst (placeOrder e ?q s), (snd (placeOrder e ?q s))\<lparr>orders := os\<rparr>)"
      using p q
      by (cases x) (simp_all add: placeOrder_def OrderFormSchema_discountCode addLog_def Let_def)
    then show ?thesis by blast
  qed
  then obtain os' where "placeOrder e p s
           = (fst (placeOrder e ?q s), (snd (placeOrder e ?q s))\<lparr>orders := os'\<rparr>)" ..
  then show ?thesis
    by (rule orders_update_snd)
qed

text \<open>
  C5. A valid placement that supplies a discount code which the Discount Ledger does not
  have (the ledger being reachable) does not fail because of the code: it returns the very
  result, success flag and message included, of the same placement without a code, and
  leaves the same state except for the order store; the order it persists (when price
  lookup and persistence go through) has \<open>discountAmount = 0\<close> and the full price, and only
  records the supplied code.
\<close>

theorem placeOrder_unknown_code_ignored:
  assumes "OrderFormSchema e p"
    and "payload_discountCode p = Some c" and "discounts s c = None"
    and "throws e GetDiscount = None" and "throws e IncrementDiscountUsage = None"
  shows "fst (placeOrder e p s) = fst (placeOrder e (p\<lparr>payload_discountCode := None\<rparr>) s)
       \<and> snd (placeOrder e p s)
           = (snd (placeOrder e (p\<lparr>payload_discountCode := None\<rparr>) s))
               \<lparr>orders := orders (snd (placeOrder e p s))\<rparr>
       \<and> (throws e FetchLocationAndPrice = None \<and> throws e AddOrder = None \<longrightarrow>
            (\<exists>ord. orders (snd (placeOrder e p s)) (payload_userId p, new_order_id e) = Some ord
               \<and> discountAmount ord = Some 0
               \<and> price ord = price_of (prices e) (payload_variant p)
               \<and> originalPrice ord = Some (price_of (prices e) (payload_variant p))
               \<and> discountCode ord = Some c))"
proof -
  note eq = unknown_code_placeOrder [OF assms(2-5)]
  have a: "fst (placeOrder e p s) = fst (placeOrder e (p\<lparr>payload_discountCode := None\<rparr>) s)"
    by (subst eq) simp
  have b: "snd (placeOrder e p s)
           = (snd (placeOrder e (p\<lparr>payload_discountCode := None\<rparr>) s))
               \<lparr>orders := orders (snd (placeOrder e p s))\<rparr>"
    by (subst eq) simp
  have c: "\<exists>ord. orders (snd (placeOrder e p s)) (payload_userId p, new_order_id e) = Some ord
               \<and> discountAmount ord = Some 0
               \<and> price ord = price_of (prices e) (payload_variant p)
               \<and> originalPrice ord = Some (price_of (prices e) (payload_variant p))
               \<and> discountCode ord = Some c"
    if "throws e FetchLocationAndPrice = None" and "throws e AddOrder = None"
    using placeOrder_persists [OF assms(1) that(1) assms(4) that(2), of s] assms(2)
    by (simp add: placeOrder_newOrder_fields unknown_code_discount_for [OF assms(2,3)]
        or_else_def)
  from a b c show ?thesis
    by blast
qed

lemma demo_unknown_code_valid: "OrderFormSchema demo_env demo_payload_unknown_code"
  by (simp add: demo_payload_unknown_code_def OrderFormSchema_discountCode demo_valid)

theorem placeOrder_unknown_code_ignored_witness:
  "OrderFormSchema demo_env demo_payload_unknown_code
   \<and> payload_discountCode demo_payload_unknown_code = Some ''BOGUS''
   \<and> discounts demo_world ''BOGUS'' = None
   \<and> success (fst (placeOrder demo_env demo_payload_unknown_code demo_world))
   \<and> map_option discountAmount
         (orders (snd (placeOrder demo_env demo_payload_unknown_code demo_world))
            (''u1'', ''order-1'')) = Some (Some 0)
   \<and> map_option price
         (orders (snd (placeOrder demo_env demo_payload_unknown_code demo_world))
            (''u1'', ''order-1'')) = Some 500"
proof -
  let ?p = demo_payload_unknown_code
  have code: "payload_discountCode ?p = Some ''BOGUS''"
    by (simp add: demo_payload_unknown_code_def)
  have absent: "discounts demo_world ''BOGUS'' = None"
    by (simp add: demo_world_def)
  have cod: "payload_paymentMethod (?p\<lparr>payload_discountCode := None\<rparr>) = Cod"
    by (simp add: demo_payload_unknown_code_def demo_payload_def)
  have valid: "OrderFormSchema demo_env (?p\<lparr>payload_discountCode := None\<rparr>)"
    by (simp add: OrderFormSchema_discountCode demo_unknown_code_valid)
  have ok: "success (fst (placeOrder demo_env (?p\<lparr>payload_discountCode := None\<rparr>) demo_world))"
    by (rule placeOrder_cod_succeeds [OF valid cod demo_throws])
  have key: "payload_userId ?p = ''u1''" "new_order_id demo_env = ''order-1''"
    "price_of (prices demo_env) (payload_variant ?p) = 500"
    by (simp_all add: demo_payload_unknown_code_def demo_payload_def demo_env_def price_of_def)
  from placeOrder_unknown_code_ignored
         [OF demo_unknown_code_valid code absent demo_throws demo_throws]
    ok code absent demo_unknown_code_valid key
  show ?thesis
    by (auto simp: demo_throws)
qed

subsection \<open>Prepaid orders\<close>




lemma processPrepaidOrder_try_frame:
  assumes "processPrepaidOrder_try e d s = (x, s')"
  shows "orders s' = orders s \<and> stock s' = stock s \<and> discounts s' = discounts s
       \<and> reviews s' = reviews s"
  using assms
  by (auto simp: processPrepaidOrder_try_def fetchLocationAndPrice_def addPendingOrder_def
      deletePendingOrder_def do_fetch_def action_defs Let_def
      split: if_splits option.splits FetchOutcome.splits)

lemma processPrepaidOrder_frame:
  "orders (snd (processPrepaidOrder e d s)) = orders s
   \<and> stock (snd (processPrepaidOrder e d s)) = stock s
   \<and> discounts (snd (processPrepaidOrder e d s)) = discounts s"
  using processPrepaidOrder_try_frame [of e d s]
  by (cases "processPrepaidOrder_try e d s")
     (auto simp: processPrepaidOrder_def split: sum.splits)




lemma placeOrder_prepaid_rejected:
  assumes "OrderFormSchema e p" and "payload_paymentMethod p = Prepaid"
    and "\<And>op. throws e op = None"
    and "configured e" and "truthy (NEXT_PUBLIC_HOST_URL e)"
    and "\<And>req. fetch e req = Rejects m"
  shows "\<not> success (fst (placeOrder e p s))"
  using assms(1,2,4,5)
  by (simp add: placeOrder_def placeOrder_try_run assms(3,6) placeOrder_prepaid_def
      initiatePhonePePayment_def initiatePhonePePayment_catch_def payment_failed_def
      do_fetch_def configured_def truthy_def result_def action_defs Let_def)



lemma demo_prepaid_valid: "OrderFormSchema demo_env demo_payload_prepaid"
  using demo_valid by (simp add: demo_payload_prepaid_def OrderFormSchema_def)

lemma demo_data_valid: "OrderSchema_safeParse demo_env demo_data"
  by (simp add: OrderSchema_safeParse_def demo_env_def demo_data_def)

lemma demo_configured: "configured demo_env" "truthy (NEXT_PUBLIC_HOST_URL demo_env)"
  by (simp_all add: configured_def truthy_def demo_env_def)


lemma placeOrder_try_pending:
  assumes "placeOrder_try e p s = (x, s')"
  shows "pendingOrders s' = pendingOrders s"
  using assms
  by (auto simp: placeOrder_try_def fetchLocationAndPrice_def addOrder_def action_defs Let_def
      split: option.splits prod.splits sum.splits if_splits
      dest!: placeOrder_discount_frame placeOrder_cod_frame placeOrder_prepaid_frame)

lemma placeOrder_pending: "pendingOrders (snd (placeOrder e p s)) = pendingOrders s"
  using placeOrder_try_pending
          [of e p "snd (addLog ''info'' ''placeOrder action initiated.'' s)"]
  by (cases "placeOrder_try e p (snd (addLog ''info'' ''placeOrder action initiated.'' s))")
     (auto simp: placeOrder_def addLog_def Let_def split: sum.splits)

lemma processPrepaidOrder_refused:
  assumes "OrderSchema_safeParse e d"
    and "throws e FetchLocationAndPrice = None"
    and "throws e AddPendingOrder = None"
    and "throws e DeletePendingOrder = None"
    and "fetch e (processPrepaidOrder_request e d (price_of (prices e) (data_variant d)))
           = Responds data"
    and "\<not> resp_success data \<or> \<not> truthy (optional_url data)"
  shows "\<not> success (fst (processPrepaidOrder e d s))
       \<and> pendingOrders (snd (processPrepaidOrder e d s))
           = (pendingOrders s)(merchantTransactionId e := None)"
  using assms
  by (auto simp: processPrepaidOrder_def processPrepaidOrder_try_def fetchLocationAndPrice_def
      addPendingOrder_def deletePendingOrder_def do_fetch_def result_def or_else_def
      action_defs Let_def split: option.splits)

text \<open>The network error path of \<open>processPrepaidOrder\<close>: when \<open>fetch\<close> rejects, the \<open>catch\<close>
  clause returns the failure without deleting the record.\<close>

lemma processPrepaidOrder_network_error:
  assumes "OrderSchema_safeParse e d"
    and "throws e FetchLocationAndPrice = None"
    and "throws e AddPendingOrder = None"
    and "fetch e (processPrepaidOrder_request e d (price_of (prices e) (data_variant d)))
           = Rejects m"
  shows "\<not> success (fst (processPrepaidOrder e d s))
       \<and> pendingOrders (snd (processPrepaidOrder e d s)) (merchantTransactionId e)
           = Some (orderDetails d (price_of (prices e) (data_variant d)) Prepaid)"
  using assms
  by (auto simp: processPrepaidOrder_def processPrepaidOrder_try_def fetchLocationAndPrice_def
      addPendingOrder_def do_fetch_def result_def action_defs Let_def)

text \<open>
  C3, as the sources have it. In \<open>processPrepaidOrder\<close>, when the payment provider answers
  the initiation request with a failure payload (and the stores are reachable), the action
  fails, the PendingOrder kept under the generated transaction id is deleted and the order
  store is untouched. The unified \<open>placeOrder\<close> never touches the pending orders: it
  persists the Order before it initiates the payment, and that Order stays in the store
  whatever the outcome of the initiation.
\<close>

theorem pending_order_deleted_when_gateway_refuses:
  assumes "OrderSchema_safeParse e d"
    and "throws e FetchLocationAndPrice = None"
    and "throws e AddPendingOrder = None"
    and "throws e DeletePendingOrder = None"
    and "fetch e (processPrepaidOrder_request e d (price_of (prices e) (data_variant d)))
           = Responds data"
    and "\<not> resp_success data \<or> \<not> truthy (optional_url data)"
  shows "\<not> success (fst (processPrepaidOrder e d s))
       \<and> pendingOrders (snd (processPrepaidOrder e d s))
           = (pendingOrders s)(merchantTransactionId e := None)
       \<and> orders (snd (processPrepaidOrder e d s)) = orders s
       \<and> pendingOrders (snd (placeOrder e p w)) = pendingOrders w
       \<and> (OrderFormSchema e p \<and> throws e GetDiscount = None \<and> throws e AddOrder = None
            \<longrightarrow> orders (snd (placeOrder e p w)) (payload_userId p, new_order_id e) \<noteq> None)"
  using processPrepaidOrder_refused [OF assms, of s] processPrepaidOrder_frame [of e d s]
    placeOrder_pending [of e p w] placeOrder_persists [OF _ assms(2), of p w]
  by simp

theorem pending_order_deleted_when_gateway_refuses_witness:
  "OrderSchema_safeParse (demo_env\<lparr>fetch := gateway_refuses\<rparr>) demo_data
   \<and> \<not> success (fst (processPrepaidOrder (demo_env\<lparr>fetch := gateway_refuses\<rparr>) demo_data
                        demo_world))
   \<and> pendingOrders (snd (processPrepaidOrder (demo_env\<lparr>fetch := gateway_refuses\<rparr>)
                            demo_data demo_world))
        (merchantTransactionId (demo_env\<lparr>fetch := gateway_refuses\<rparr>)) = None
   \<and> orders (snd (processPrepaidOrder (demo_env\<lparr>fetch := gateway_refuses\<rparr>) demo_data
                     demo_world)) = Map.empty
   \<and> orders (snd (placeOrder (demo_env\<lparr>fetch := gateway_refuses\<rparr>) demo_payload_prepaid
                     demo_world)) (''u1'', ''order-1'') \<noteq> None"
proof -
  let ?e = "demo_env\<lparr>fetch := gateway_refuses\<rparr>"
  have valid: "OrderFormSchema ?e demo_payload_prepaid"
    using demo_prepaid_valid by (simp add: OrderFormSchema_def)
  have valid': "OrderSchema_safeParse ?e demo_data"
    using demo_data_valid by (simp add: OrderSchema_safeParse_def)
  have thr: "throws ?e op = None" for op
    by (simp add: demo_throws)
  have key: "payload_userId demo_payload_prepaid = ''u1''" "new_order_id ?e = ''order-1''"
    by (simp_all add: demo_payload_prepaid_def demo_payload_def demo_env_def)
  from pending_order_deleted_when_gateway_refuses
         [OF valid' thr thr thr, of _ demo_world demo_payload_prepaid demo_world]
    valid valid' thr key
  show ?thesis
    by (simp add: gateway_refuses_def refusing_answer_def optional_url_def truthy_def)
       (simp add: demo_world_def)
qed

text \<open>A prepaid placement through the unified \<open>placeOrder\<close> whose initiation fails (the
  provider cannot be reached): the action reports the failure and the new Order is in
  the store.\<close>

theorem prepaid_failure_leaves_order_counterexample:
  "payload_paymentMethod demo_payload_prepaid = Prepaid
   \<and> OrderFormSchema demo_env demo_payload_prepaid
   \<and> \<not> success (fst (placeOrder demo_env demo_payload_prepaid demo_world))
   \<and> orders demo_world (''u1'', ''order-1'') = None
   \<and> orders (snd (placeOrder demo_env demo_payload_prepaid demo_world)) (''u1'', ''order-1'')
       \<noteq> None"
proof -
  have prepaid: "payload_paymentMethod demo_payload_prepaid = Prepaid"
    by (simp add: demo_payload_prepaid_def)
  have fails: "\<not> success (fst (placeOrder demo_env demo_payload_prepaid demo_world))"
    by (rule placeOrder_prepaid_rejected
          [OF demo_prepaid_valid prepaid demo_throws demo_configured, of "''network down''"])
       (simp add: demo_env_def)
  have key: "payload_userId demo_payload_prepaid = ''u1''" "new_order_id demo_env = ''order-1''"
    by (simp_all add: demo_payload_prepaid_def demo_payload_def demo_env_def)
  from placeOrder_persists [OF demo_prepaid_valid demo_throws demo_throws demo_throws,
         of demo_world] key prepaid fails demo_prepaid_valid
  show ?thesis
    by (simp add: demo_world_def)
qed

subsection \<open>Reviews\<close>

lemma submitReview_missing:
  assumes "orders s (review_userId d, review_orderId d) = None"
  shows "\<not> success (fst (submitReview e d s)) \<and> reviews (snd (submitReview e d s)) = reviews s"
  using assms
  by (simp add: submitReview_def submitReview_try_def getOrderById_def result_def action_defs
      split: option.splits)

lemma submitReview_actions_missing:
  assumes "orders s (review_userId d, review_orderId d) = None"
  shows "\<not> success (fst (submitReview_actions e d s))"
  using assms
  by (auto simp: submitReview_actions_def submitReview_actions_try_def addReview_def
      updateOrderStatus_def result_def action_defs split: option.splits)

lemma submitReview_try_run:
  "submitReview_try e d s =
     (if \<not> ReviewSchema d then (Inl ZodError_message, s)
      else case throws e GetOrderById of
        Some m \<Rightarrow> (Inl m, s)
      | None \<Rightarrow>
         (case orders s (review_userId d, review_orderId d) of
            None \<Rightarrow> (Inl ''Order not found.'', s)
          | Some ord \<Rightarrow>
             (case throws e AddReview of
                Some m \<Rightarrow> (Inl m, s)
              | None \<Rightarrow>
                 (case throws e UpdateOrderStatus of
                    Some m \<Rightarrow>
                      (Inl m, s\<lparr>reviews := reviews s
                                  @ [ReviewData.extend d (Review.fields (name ord))]\<rparr>)
                  | None \<Rightarrow>
                      (Inr (result True ''Review submitted successfully.''),
                       s\<lparr>reviews := reviews s
                            @ [ReviewData.extend d (Review.fields (name ord))],
                         orders := (orders s)((review_userId d, review_orderId d) \<mapsto>
                            ord\<lparr>status := Delivered, hasReview := True\<rparr>),
                         revalidated := revalidated s @ [''/'', ''/orders'']\<rparr>)))))"
  by (simp add: submitReview_try_def getOrderById_def addReview_def updateOrderStatus_def
      action_defs split: option.splits)

lemma submitReview_actions_try_run:
  "submitReview_actions_try e d s =
     (if \<not> ReviewSchema d then (Inl ZodError_message, s)
      else case throws e AddReview of
        Some m \<Rightarrow> (Inl m, s)
      | None \<Rightarrow>
         (case throws e UpdateOrderStatus of
            Some m \<Rightarrow>
              (Inl m, s\<lparr>reviews := reviews s @ [ReviewData.extend d
                 (Review.fields (or_else (currentUser_displayName e) ''Anonymous''))]\<rparr>)
          | None \<Rightarrow>
             (case orders s (review_userId d, review_orderId d) of
                None \<Rightarrow>
                  (Inl ''Order not found.'', s\<lparr>reviews := reviews s @ [ReviewData.extend d
                     (Review.fields (or_else (currentUser_displayName e) ''Anonymous''))]\<rparr>)
              | Some ord \<Rightarrow>
                  (Inr (result True ''Review submitted successfully.''),
                   s\<lparr>reviews := reviews s @ [ReviewData.extend d
                        (Review.fields (or_else (currentUser_displayName e) ''Anonymous''))],
                     orders := (orders s)((review_userId d, review_orderId d) \<mapsto>
                          ord\<lparr>status := Delivered, hasReview := True\<rparr>),
                     revalidated := revalidated s @ [''/'', ''/orders'']\<rparr>))))"
  by (simp add: submitReview_actions_try_def addReview_def updateOrderStatus_def
      action_defs split: option.splits)

lemma submitReview_success:
  assumes "success (fst (submitReview e d s))"
  shows "\<exists>ord. orders s (review_userId d, review_orderId d) = Some ord
       \<and> orders (snd (submitReview e d s)) (review_userId d, review_orderId d)
           = Some (ord\<lparr>status := Delivered, hasReview := True\<rparr>)
       \<and> reviews (snd (submitReview e d s))
           = reviews s @ [ReviewData.extend d (Review.fields (name ord))]"
  using assms
  by (simp add: submitReview_def submitReview_try_run result_def
      split: if_splits option.splits)

lemma submitReview_actions_success:
  assumes "success (fst (submitReview_actions e d s))"
  shows "\<exists>ord. orders s (review_userId d, review_orderId d) = Some ord
       \<and> orders (snd (submitReview_actions e d s)) (review_userId d, review_orderId d)
           = Some (ord\<lparr>status := Delivered, hasReview := True\<rparr>)
       \<and> reviews (snd (submitReview_actions e d s))
           = reviews s @ [ReviewData.extend d
               (Review.fields (or_else (currentUser_displayName e) ''Anonymous''))]"
proof -
  from assms obtain r s' where tr: "submitReview_actions_try e d s = (Inr r, s')"
    and res: "submitReview_actions e d s = (r, s')"
    by (cases "submitReview_actions_try e d s")
       (auto simp: submitReview_actions_def result_def split: sum.splits)
  from tr have v: "ReviewSchema d"
    by (auto simp: submitReview_actions_try_run split: if_splits)
  from tr v have a: "throws e AddReview = None"
    by (cases "throws e AddReview") (simp_all add: submitReview_actions_try_run)
  from tr v a have u: "throws e UpdateOrderStatus = None"
    by (cases "throws e UpdateOrderStatus") (simp_all add: submitReview_actions_try_run)
  from tr v a u obtain ord where o: "orders s (review_userId d, review_orderId d) = Some ord"
    by (cases "orders s (review_userId d, review_orderId d)")
       (simp_all add: submitReview_actions_try_run)
  from tr v a u o have "s' = s\<lparr>reviews := reviews s @ [ReviewData.extend d
                        (Review.fields (or_else (currentUser_displayName e) ''Anonymous''))],
                     orders := (orders s)((review_userId d, review_orderId d) \<mapsto>
                          ord\<lparr>status := Delivered, hasReview := True\<rparr>),
                     revalidated := revalidated s @ [''/'', ''/orders'']\<rparr>"
    by (simp add: submitReview_actions_try_run)
  with res o show ?thesis
    by simp
qed

lemma submitReview_succeeds:
  assumes "ReviewSchema d" and "\<And>op. throws e op = None"
    and "orders s (review_userId d, review_orderId d) = Some ord"
  shows "success (fst (submitReview e d s)) \<and> success (fst (submitReview_actions e d s))"
  using assms(1,3)
  by (simp add: submitReview_def submitReview_try_def submitReview_actions_def
      submitReview_actions_try_def getOrderById_def addReview_def updateOrderStatus_def
      result_def action_defs assms(2))

text \<open>
  C6. \<open>submitReview\<close> fails when the customer has no order with the given id. When it
  succeeds, the customer has such an order, the review is persisted, and the order has
  status delivered and \<open>hasReview = true\<close> whatever its status was before. With a valid
  rating and reachable stores it succeeds for every order located, in any status. All of
  this holds for the \<open>submitReview\<close> of both modules (the one of \<open>src/lib/actions.ts\<close>
  takes the reviewer's name from the signed-in user, not from the order).
\<close>

theorem submitReview_effects:
  "(orders s (review_userId d, review_orderId d) = None \<longrightarrow>
      \<not> success (fst (submitReview e d s)) \<and> \<not> success (fst (submitReview_actions e d s)))
   \<and> (success (fst (submitReview e d s)) \<longrightarrow>
        (\<exists>ord. orders s (review_userId d, review_orderId d) = Some ord
           \<and> orders (snd (submitReview e d s)) (review_userId d, review_orderId d)
               = Some (ord\<lparr>status := Delivered, hasReview := True\<rparr>)
           \<and> reviews (snd (submitReview e d s))
               = reviews s @ [ReviewData.extend d (Review.fields (name ord))]))
   \<and> (success (fst (submitReview_actions e d s)) \<longrightarrow>
        (\<exists>ord. orders s (review_userId d, review_orderId d) = Some ord
           \<and> orders (snd (submitReview_actions e d s)) (review_userId d, review_orderId d)
               = Some (ord\<lparr>status := Delivered, hasReview := True\<rparr>)
           \<and> reviews (snd (submitReview_actions e d s))
               = reviews s @ [ReviewData.extend d
                   (Review.fields (or_else (currentUser_displayName e) ''Anonymous''))]))
   \<and> (ReviewSchema d \<and> (\<forall>op. throws e op = None)
        \<and> orders s (review_userId d, review_orderId d) \<noteq> None \<longrightarrow>
        success (fst (submitReview e d s)) \<and> success (fst (submitReview_actions e d s)))"
  using submitReview_missing [of s d e] submitReview_actions_missing [of s d e]
    submitReview_success [of e d s] submitReview_actions_success [of e d s]
    submitReview_succeeds [of d e s]
  by blast


lemma demo_review_valid: "ReviewSchema demo_review"
  by (simp add: ReviewSchema_def demo_review_def)

lemma demo_world_with_order:
  "orders (demo_world_with st) (review_userId demo_review, review_orderId demo_review)
     = Some (demo_order st)"
  by (simp add: demo_world_with_def demo_review_def)

theorem submitReview_effects_witness:
  "status (demo_order New) = New
   \<and> orders (demo_world_with New) (''u1'', ''order-1'') = Some (demo_order New)
   \<and> success (fst (submitReview demo_env demo_review (demo_world_with New)))
   \<and> orders (snd (submitReview demo_env demo_review (demo_world_with New))) (''u1'', ''order-1'')
       = Some ((demo_order New)\<lparr>status := Delivered, hasReview := True\<rparr>)
   \<and> length (reviews (snd (submitReview demo_env demo_review (demo_world_with New)))) = 1
   \<and> success (fst (submitReview_actions demo_env demo_review (demo_world_with New)))
   \<and> orders demo_world (''u1'', ''order-1'') = None
   \<and> \<not> success (fst (submitReview demo_env demo_review demo_world))
   \<and> \<not> success (fst (submitReview_actions demo_env demo_review demo_world))"
proof -
  have none: "orders demo_world (review_userId demo_review, review_orderId demo_review) = None"
    by (simp add: demo_world_def)
  have key: "review_userId demo_review = ''u1''" "review_orderId demo_review = ''order-1''"
    by (simp_all add: demo_review_def)
  have new: "status (demo_order New) = New"
    by (simp add: demo_order_def OrderData.defs Order.defs)
  have rv: "reviews (demo_world_with New) = []"
    by (simp add: demo_world_with_def demo_world_def)
  from submitReview_effects [of "demo_world_with New" demo_review demo_env]
    submitReview_effects [of demo_world demo_review demo_env]
    demo_review_valid demo_throws demo_world_with_order [of New] none key new rv
  show ?thesis
    by auto
qed

subsection \<open>Changing the status of an order\<close>

lemma changeOrderStatus_run:
  "changeOrderStatus e u oid st s =
     (case throws e UpdateOrderStatus of
        Some m \<Rightarrow> (result False (if m = [] then ''Failed to update order status.'' else m), s)
      | None \<Rightarrow>
         (case orders s (u, oid) of
            None \<Rightarrow> (result False ''Order not found.'', s)
          | Some ord \<Rightarrow>
              (result True (''Order '' @ oid @ '' status updated to '' @ status_text st),
               s\<lparr>orders := (orders s)((u, oid) \<mapsto> ord\<lparr>status := st\<rparr>),
                 revalidated := revalidated s @ [''/admin'', ''/orders'']\<rparr>)))"
  by (simp add: changeOrderStatus_def updateOrderStatus_def action_defs split: option.splits)

lemma changeOrderStatusAction_run:
  "changeOrderStatusAction e u oid st s =
     (case throws e UpdateOrderStatus of
        Some m \<Rightarrow> (Inl m, s)
      | None \<Rightarrow>
         (case orders s (u, oid) of
            None \<Rightarrow> (Inl ''Order not found.'', s)
          | Some ord \<Rightarrow>
              (Inr (), s\<lparr>orders := (orders s)((u, oid) \<mapsto> ord\<lparr>status := st\<rparr>)\<rparr>)))"
  by (simp add: changeOrderStatusAction_def updateOrderStatus_def action_defs
      split: option.splits)

text \<open>
  C7. \<open>changeOrderStatus\<close> permits every transition: for every order located for the
  customer, whatever its status, and every new status, the update succeeds (the store
  being reachable) and the order has the new status afterwards; it fails when the order
  cannot be located for the customer, and with a reachable store that is the only way it
  fails. The same holds for \<open>changeOrderStatusAction\<close>, which rejects instead of
  returning a failed result.
\<close>

theorem changeOrderStatus_unrestricted:
  "(orders s (u, oid) = Some ord \<and> throws e UpdateOrderStatus = None \<longrightarrow>
      success (fst (changeOrderStatus e u oid st s))
      \<and> orders (snd (changeOrderStatus e u oid st s)) (u, oid) = Some (ord\<lparr>status := st\<rparr>)
      \<and> fst (changeOrderStatusAction e u oid st s) = Inr ()
      \<and> orders (snd (changeOrderStatusAction e u oid st s)) (u, oid)
          = Some (ord\<lparr>status := st\<rparr>))
   \<and> (orders s (u, oid) = None \<longrightarrow>
        \<not> success (fst (changeOrderStatus e u oid st s))
        \<and> snd (changeOrderStatus e u oid st s) = s
        \<and> isl (fst (changeOrderStatusAction e u oid st s))
        \<and> snd (changeOrderStatusAction e u oid st s) = s)
   \<and> (throws e UpdateOrderStatus = None \<and> \<not> success (fst (changeOrderStatus e u oid st s))
        \<longrightarrow> orders s (u, oid) = None)
   \<and> (throws e UpdateOrderStatus = None \<and> isl (fst (changeOrderStatusAction e u oid st s))
        \<longrightarrow> orders s (u, oid) = None)"
  by (simp add: changeOrderStatus_run changeOrderStatusAction_run result_def
      split: option.splits)

theorem changeOrderStatus_unrestricted_witness:
  "status (demo_order Cancelled) = Cancelled
   \<and> orders (demo_world_with Cancelled) (''u1'', ''order-1'') = Some (demo_order Cancelled)
   \<and> success (fst (changeOrderStatus demo_env ''u1'' ''order-1'' Delivered
                    (demo_world_with Cancelled)))
   \<and> map_option status
        (orders (snd (changeOrderStatus demo_env ''u1'' ''order-1'' Delivered
                        (demo_world_with Cancelled))) (''u1'', ''order-1'')) = Some Delivered
   \<and> fst (changeOrderStatusAction demo_env ''u1'' ''order-1'' Delivered
             (demo_world_with Cancelled)) = Inr ()
   \<and> orders demo_world (''u1'', ''order-1'') = None
   \<and> \<not> success (fst (changeOrderStatus demo_env ''u1'' ''order-1'' Delivered demo_world))"
proof -
  have found: "orders (demo_world_with Cancelled) (''u1'', ''order-1'')
                 = Some (demo_order Cancelled)"
    by (simp add: demo_world_with_def)
  have none: "orders demo_world (''u1'', ''order-1'') = None"
    by (simp add: demo_world_def)
  have st: "status (demo_order Cancelled) = Cancelled"
    by (simp add: demo_order_def OrderData.defs Order.defs)
  from changeOrderStatus_unrestricted
         [of "demo_world_with Cancelled" "''u1''" "''order-1''" "demo_order Cancelled"
             demo_env Delivered]
    changeOrderStatus_unrestricted
         [of demo_world "''u1''" "''order-1''" "demo_order Cancelled" demo_env Delivered]
    found none st demo_throws
  show ?thesis
    by simp
qed

subsection \<open>The payment gateway adapter\<close>

lemma initiatePhonePePayment_sent:
  assumes "configured e" and "truthy (NEXT_PUBLIC_HOST_URL e)"
  shows "sent (snd (initiatePhonePePayment e ord s))
           = sent s @ [initiatePhonePePayment_request e ord]"
  using assms
  by (simp add: initiatePhonePePayment_def initiatePhonePePayment_catch_def do_fetch_def
      configured_def action_defs split: FetchOutcome.splits redirect_path.splits)

lemma checkPhonePeStatus_sent:
  assumes "configured e"
  shows "sent (snd (checkPhonePeStatus e txn s)) = sent s @ [checkPhonePeStatus_request e txn]"
  using assms
  by (simp add: checkPhonePeStatus_def do_fetch_def configured_def action_defs
      split: FetchOutcome.splits)

text \<open>
  C8. With the three credentials configured, the request that \<open>initiatePhonePePayment\<close>
  sends carries the header \<open>X-VERIFY = hex (SHA-256 (base64Payload @ "/pg/v1/pay" @ saltKey))
  @ "###" @ saltIndex\<close>, where \<open>base64Payload\<close> encodes the JSON payload whose \<open>amount\<close> is
  \<open>price * 100\<close> and whose \<open>merchantId\<close> is the configured one, and its body wraps that
  same \<open>base64Payload\<close>. The request that \<open>checkPhonePeStatus\<close> sends is a GET without a
  body, signed in the same way over the status path alone, with the merchant id in the
  header \<open>X-MERCHANT-ID\<close> (the status path itself contains the merchant id).
\<close>

theorem phonepe_request_signature:
  assumes "PHONEPE_MERCHANT_ID e = Some merchantId" and "merchantId \<noteq> []"
    and "PHONEPE_SALT_KEY e = Some saltKey" and "saltKey \<noteq> []"
    and "PHONEPE_SALT_INDEX e = Some saltIndex" and "saltIndex \<noteq> []"
  shows "(truthy (NEXT_PUBLIC_HOST_URL e) \<longrightarrow>
           (\<exists>fields req.
              initiatePhonePePayment_payload e ord = JObject fields
              \<and> map_of fields ''amount'' = Some (JNumber (price ord * 100))
              \<and> map_of fields ''merchantId'' = Some (JString merchantId)
              \<and> sent (snd (initiatePhonePePayment e ord s)) = sent s @ [req]
              \<and> map_of (headers req) ''X-VERIFY''
                  = Some (sha256_hex e (base64 e (JSON_stringify e (JObject fields))
                                         @ ''/pg/v1/pay'' @ saltKey)
                          @ ''###'' @ saltIndex)
              \<and> body req = Some (JSON_stringify e (JObject
                    [(''request'', JString (base64 e (JSON_stringify e (JObject fields))))]))))
       \<and> (\<exists>req.
              sent (snd (checkPhonePeStatus e txn s)) = sent s @ [req]
              \<and> http_method req = ''GET'' \<and> body req = None
              \<and> url req = apiUrl e @ ''/pg/v1/status/'' @ merchantId @ ''/'' @ txn
              \<and> map_of (headers req) ''X-MERCHANT-ID'' = Some merchantId
              \<and> map_of (headers req) ''X-VERIFY''
                  = Some (sha256_hex e (''/pg/v1/status/'' @ merchantId @ ''/'' @ txn @ saltKey)
                          @ ''###'' @ saltIndex))"
proof -
  from assms have cfg: "configured e"
    by (simp add: configured_def truthy_def)
  have pay: "\<exists>fields req.
              initiatePhonePePayment_payload e ord = JObject fields
              \<and> map_of fields ''amount'' = Some (JNumber (price ord * 100))
              \<and> map_of fields ''merchantId'' = Some (JString merchantId)
              \<and> sent (snd (initiatePhonePePayment e ord s)) = sent s @ [req]
              \<and> map_of (headers req) ''X-VERIFY''
                  = Some (sha256_hex e (base64 e (JSON_stringify e (JObject fields))
                                         @ ''/pg/v1/pay'' @ saltKey)
                          @ ''###'' @ saltIndex)
              \<and> body req = Some (JSON_stringify e (JObject
                    [(''request'', JString (base64 e (JSON_stringify e (JObject fields))))]))"
    if host: "truthy (NEXT_PUBLIC_HOST_URL e)"
    using initiatePhonePePayment_sent [OF cfg host, of ord s] assms
    by (simp add: initiatePhonePePayment_request_def initiatePhonePePayment_payload_def
        str_def Let_def)
  have chk: "\<exists>req.
              sent (snd (checkPhonePeStatus e txn s)) = sent s @ [req]
              \<and> http_method req = ''GET'' \<and> body req = None
              \<and> url req = apiUrl e @ ''/pg/v1/status/'' @ merchantId @ ''/'' @ txn
              \<and> map_of (headers req) ''X-MERCHANT-ID'' = Some merchantId
              \<and> map_of (headers req) ''X-VERIFY''
                  = Some (sha256_hex e (''/pg/v1/status/'' @ merchantId @ ''/'' @ txn @ saltKey)
                          @ ''###'' @ saltIndex)"
    using checkPhonePeStatus_sent [OF cfg, of txn s] assms
    by (simp add: checkPhonePeStatus_request_def str_def Let_def)
  from pay chk show ?thesis
    by blast
qed

theorem phonepe_request_signature_witness:
  "PHONEPE_MERCHANT_ID demo_env = Some ''MERCHANT1''
   \<and> PHONEPE_SALT_KEY demo_env = Some ''salt''
   \<and> PHONEPE_SALT_INDEX demo_env = Some ''1''
   \<and> price (demo_order New) = 500
   \<and> (\<exists>fields req.
         initiatePhonePePayment_payload demo_env (demo_order New) = JObject fields
         \<and> map_of fields ''amount'' = Some (JNumber 50000)
         \<and> sent (snd (initiatePhonePePayment demo_env (demo_order New) demo_world)) = [req]
         \<and> map_of (headers req) ''X-VERIFY''
             = Some (sha256_hex demo_env (base64 demo_env (JSON_stringify demo_env
                       (JObject fields)) @ ''/pg/v1/pay'' @ ''salt'') @ ''###1''))
   \<and> (\<exists>req.
         sent (snd (checkPhonePeStatus demo_env ''MUID-order-1-1700000000000'' demo_world))
           = [req]
         \<and> body req = None
         \<and> map_of (headers req) ''X-MERCHANT-ID'' = Some ''MERCHANT1''
         \<and> map_of (headers req) ''X-VERIFY''
             = Some (sha256_hex demo_env
                       (''/pg/v1/status/MERCHANT1/MUID-order-1-1700000000000'' @ ''salt'')
                     @ ''###1''))"
proof -
  have vars: "PHONEPE_MERCHANT_ID demo_env = Some ''MERCHANT1''"
    "PHONEPE_SALT_KEY demo_env = Some ''salt''" "PHONEPE_SALT_INDEX demo_env = Some ''1''"
    by (simp_all add: demo_env_def)
  have pr: "price (demo_order New) = 500"
    by (simp add: demo_order_def orderDetails_def OrderData.defs Order.defs)
  have st: "sent demo_world = []"
    by (simp add: demo_world_def)
  from phonepe_request_signature
         [OF vars(1) _ vars(2) _ vars(3), of "demo_order New" demo_world
             "''MUID-order-1-1700000000000''"]
    demo_configured(2) vars pr st
  show ?thesis
    by simp blast
qed

lemma initiatePhonePePayment_unconfigured:
  assumes "\<not> configured e"
  shows "initiatePhonePePayment e ord s
           = (Inl ''PhonePe environment variables are not configured.'', s)"
  using assms by (auto simp: initiatePhonePePayment_def configured_def throw_def)

lemma checkPhonePeStatus_unconfigured:
  assumes "\<not> configured e"
  shows "checkPhonePeStatus e txn s
           = (Inl ''PhonePe environment variables are not configured.'', s)"
  using assms by (auto simp: checkPhonePeStatus_def configured_def throw_def)

lemma processPrepaidOrder_sends:
  assumes "OrderSchema_safeParse e d"
    and "throws e FetchLocationAndPrice = None" and "throws e AddPendingOrder = None"
  shows "sent (snd (processPrepaidOrder e d s))
           = sent s @ [processPrepaidOrder_request e d (price_of (prices e) (data_variant d))]"
  using assms
  by (simp add: processPrepaidOrder_def processPrepaidOrder_try_def fetchLocationAndPrice_def
      addPendingOrder_def deletePendingOrder_def do_fetch_def action_defs Let_def
      split: FetchOutcome.splits option.splits)

lemma processPrepaidOrder_refused_message:
  assumes "OrderSchema_safeParse e d"
    and "throws e FetchLocationAndPrice = None"
    and "throws e AddPendingOrder = None"
    and "throws e DeletePendingOrder = None"
    and "fetch e (processPrepaidOrder_request e d (price_of (prices e) (data_variant d)))
           = Responds data"
    and "\<not> resp_success data \<or> \<not> truthy (optional_url data)"
  shows "message (fst (processPrepaidOrder e d s))
           = or_else (resp_message data) ''Failed to initiate payment with PhonePe.''"
  using assms
  by (auto simp: processPrepaidOrder_def processPrepaidOrder_try_def fetchLocationAndPrice_def
      addPendingOrder_def deletePendingOrder_def do_fetch_def result_def or_else_def
      action_defs Let_def split: option.splits)

text \<open>
  C9, in an environment in which merchant id, shared secret and key index are not set.
  The adapter of the unified module rejects with the configuration error before anything
  is signed or sent. \<open>processPrepaidOrder\<close> of \<open>src/lib/actions.ts\<close> does not fail on the
  missing configuration: its module constants fall back to the empty merchant id, the
  empty secret and the key index 1, and (given valid input and reachable stores) it signs
  and sends the request with them.
\<close>

theorem processPrepaidOrder_unconfigured_sends_request:
  assumes "\<not> truthy (PHONEPE_MERCHANT_ID e)" and "\<not> truthy (PHONEPE_SALT_KEY e)"
    and "\<not> truthy (PHONEPE_SALT_INDEX e)"
    and "OrderSchema_safeParse e d"
    and "throws e FetchLocationAndPrice = None" and "throws e AddPendingOrder = None"
  shows "initiatePhonePePayment e ord s
           = (Inl ''PhonePe environment variables are not configured.'', s)
       \<and> checkPhonePeStatus e txn s
           = (Inl ''PhonePe environment variables are not configured.'', s)
       \<and> MERCHANT_ID e = [] \<and> SALT_KEY e = [] \<and> SALT_INDEX e = parseInt e ''1''
       \<and> sent (snd (processPrepaidOrder e d s))
           = sent s @ [processPrepaidOrder_request e d (price_of (prices e) (data_variant d))]
       \<and> map_of (headers (processPrepaidOrder_request e d
                    (price_of (prices e) (data_variant d)))) ''X-VERIFY''
           = Some (sha256_hex e
                     (base64 e (JSON_stringify e (processPrepaidOrder_payload e d
                        (price_of (prices e) (data_variant d)))) @ ''/pg/v1/pay'' @ [])
                   @ ''###'' @ parseInt e ''1'')"
proof -
  from assms(1) have ncfg: "\<not> configured e"
    by (simp add: configured_def)
  from assms(1-3) have cs: "MERCHANT_ID e = []" "SALT_KEY e = []"
    "SALT_INDEX e = parseInt e ''1''"
    by (simp_all add: MERCHANT_ID_def SALT_KEY_def SALT_INDEX_def or_else_def truthy_def
        split: option.splits)
  have hdr: "map_of (headers (processPrepaidOrder_request e d
                    (price_of (prices e) (data_variant d)))) ''X-VERIFY''
           = Some (sha256_hex e
                     (base64 e (JSON_stringify e (processPrepaidOrder_payload e d
                        (price_of (prices e) (data_variant d)))) @ ''/pg/v1/pay'' @ [])
                   @ ''###'' @ parseInt e ''1'')"
    by (simp add: processPrepaidOrder_request_def cs Let_def)
  from initiatePhonePePayment_unconfigured [OF ncfg] checkPhonePeStatus_unconfigured [OF ncfg]
    cs hdr processPrepaidOrder_sends [OF assms(4-6), of s]
  show ?thesis
    by simp
qed

text \<open>At the sample environment without the three variables: the request goes out, signed
  with the empty secret, and the caller only sees the provider's refusal.\<close>

theorem processPrepaidOrder_unconfigured_sends_request_witness:
  "PHONEPE_MERCHANT_ID unconfigured_env = None
   \<and> PHONEPE_SALT_KEY unconfigured_env = None
   \<and> PHONEPE_SALT_INDEX unconfigured_env = None
   \<and> OrderSchema_safeParse unconfigured_env demo_data
   \<and> initiatePhonePePayment unconfigured_env (demo_order New) demo_world
       = (Inl ''PhonePe environment variables are not configured.'', demo_world)
   \<and> MERCHANT_ID unconfigured_env = [] \<and> SALT_KEY unconfigured_env = []
   \<and> sent (snd (processPrepaidOrder unconfigured_env demo_data demo_world))
       = [processPrepaidOrder_request unconfigured_env demo_data 500]
   \<and> message (fst (processPrepaidOrder unconfigured_env demo_data demo_world)) = ''Bad request''"
proof -
  have vars: "PHONEPE_MERCHANT_ID unconfigured_env = None"
    "PHONEPE_SALT_KEY unconfigured_env = None" "PHONEPE_SALT_INDEX unconfigured_env = None"
    by (simp_all add: unconfigured_env_def)
  have valid: "OrderSchema_safeParse unconfigured_env demo_data"
    using demo_data_valid by (simp add: OrderSchema_safeParse_def unconfigured_env_def)
  have thr: "throws unconfigured_env op = None" for op
    by (simp add: unconfigured_env_def demo_throws)
  have pr: "price_of (prices unconfigured_env) (data_variant demo_data) = 500"
    by (simp add: price_of_def unconfigured_env_def demo_env_def demo_data_def)
  have msg: "message (fst (processPrepaidOrder unconfigured_env demo_data demo_world))
               = ''Bad request''"
    by (subst processPrepaidOrder_refused_message
          [OF valid thr thr thr, where data = refusing_answer])
       (simp_all add: unconfigured_env_def gateway_refuses_def refusing_answer_def
        or_else_def)
  from processPrepaidOrder_unconfigured_sends_request
         [OF _ _ _ valid thr thr, where ord = "demo_order New" and s = demo_world]
    vars valid pr msg
  show ?thesis
    by (simp add: truthy_def demo_world_def)
qed

end
